theory Spec2Isabelle
  imports Main
begin

section \<open>Bounded resource guards (src/plugin-sdk/webhook-memory-guards.ts)\<close>

text \<open>
  A JavaScript \<open>Map\<close> iterates in insertion order, and the guards rely on that order
  for recency, so a map is an association list with the oldest insertion first.
  Numbers are integers here (milliseconds and counts); \<open>Math.floor\<close> is the identity
  on them.
\<close>

type_synonym ('k, 'v) jsmap = "('k \<times> 'v) list"

definition map_get :: "('k, 'v) jsmap \<Rightarrow> 'k \<Rightarrow> 'v option" where
  "map_get m k = map_of m k"

definition map_delete :: "('k, 'v) jsmap \<Rightarrow> 'k \<Rightarrow> ('k, 'v) jsmap" where
  "map_delete m k = filter (\<lambda>e. fst e \<noteq> k) m"

definition map_size :: "('k, 'v) jsmap \<Rightarrow> nat" where
  "map_size m = length m"

text \<open>\<open>touch\<close>: \<open>state.delete(key); state.set(key, value)\<close>, which moves the key to
  the most recent position.\<close>

definition touch :: "('k, 'v) jsmap \<Rightarrow> 'k \<Rightarrow> 'v \<Rightarrow> ('k, 'v) jsmap" where
  "touch m k v = map_delete m k @ [(k, v)]"

text \<open>
  Modelled from the spec: \<open>pruneMapToMaxSize\<close> is imported from \<open>../infra/map-size.js\<close>,
  which is not among the source files. The spec (section 4.4): the mapping is
  "capacity-bounded by evicting the least-recently-touched key once size exceeds a
  configured maximum". The least recently touched key is the first of the list.
\<close>

fun pruneMapToMaxSize :: "('k, 'v) jsmap \<Rightarrow> int \<Rightarrow> ('k, 'v) jsmap" where
  "pruneMapToMaxSize [] maxSize = []"
| "pruneMapToMaxSize (e # m) maxSize =
     (if int (length (e # m)) > maxSize then pruneMapToMaxSize m maxSize else e # m)"

subsection \<open>Fixed-window rate limiter\<close>

record FixedWindowState =
  fw_count :: int
  windowStartMs :: int

record limiter_options =
  opt_windowMs :: int
  opt_maxRequests :: int
  opt_maxTrackedKeys :: int
  opt_pruneIntervalMs :: "int option"

record FixedWindowRateLimiter =
  windowMs :: int
  maxRequests :: int
  maxTrackedKeys :: int
  pruneIntervalMs :: int
  state :: "(string, FixedWindowState) jsmap"
  lastPruneMs :: int

definition createFixedWindowRateLimiter :: "limiter_options \<Rightarrow> FixedWindowRateLimiter" where
  "createFixedWindowRateLimiter options =
     (let w = max 1 (opt_windowMs options) in
      \<lparr> windowMs = w,
        maxRequests = max 1 (opt_maxRequests options),
        maxTrackedKeys = max 1 (opt_maxTrackedKeys options),
        pruneIntervalMs =
          max 1 (case opt_pruneIntervalMs options of None \<Rightarrow> w | Some p \<Rightarrow> p),
        state = [],
        lastPruneMs = 0 \<rparr>)"

definition fw_prune :: "FixedWindowRateLimiter \<Rightarrow> int \<Rightarrow> (string, FixedWindowState) jsmap" where
  "fw_prune L nowMs =
     filter (\<lambda>e. \<not> (nowMs - windowStartMs (snd e) \<ge> windowMs L)) (state L)"

definition fw_maybe_prune :: "FixedWindowRateLimiter \<Rightarrow> int \<Rightarrow> FixedWindowRateLimiter" where
  "fw_maybe_prune L nowMs =
     (if nowMs - lastPruneMs L \<ge> pruneIntervalMs L
      then L\<lparr> state := fw_prune L nowMs, lastPruneMs := nowMs \<rparr>
      else L)"

definition isRateLimited ::
  "FixedWindowRateLimiter \<Rightarrow> string \<Rightarrow> int \<Rightarrow> bool \<times> FixedWindowRateLimiter" where
  "isRateLimited L key nowMs =
     (if key = [] then (False, L)
      else
        let L1 = fw_maybe_prune L nowMs;
            fresh = (False,
              L1\<lparr> state := pruneMapToMaxSize
                     (touch (state L1) key \<lparr> fw_count = 1, windowStartMs = nowMs \<rparr>)
                     (maxTrackedKeys L1) \<rparr>)
        in case map_get (state L1) key of
             None \<Rightarrow> fresh
           | Some existing \<Rightarrow>
               if nowMs - windowStartMs existing \<ge> windowMs L1 then fresh
               else
                 let nextCount = fw_count existing + 1 in
                 (nextCount > maxRequests L1,
                  L1\<lparr> state := pruneMapToMaxSize
                         (touch (state L1) key
                            \<lparr> fw_count = nextCount, windowStartMs = windowStartMs existing \<rparr>)
                         (maxTrackedKeys L1) \<rparr>))"

definition fw_size :: "FixedWindowRateLimiter \<Rightarrow> nat" where
  "fw_size L = map_size (state L)"

definition fw_clear :: "FixedWindowRateLimiter \<Rightarrow> FixedWindowRateLimiter" where
  "fw_clear L = L\<lparr> state := [], lastPruneMs := 0 \<rparr>"

text \<open>The window of a key that a call at \<open>nowMs\<close> would find alive.\<close>

definition live_window :: "FixedWindowRateLimiter \<Rightarrow> string \<Rightarrow> int \<Rightarrow> FixedWindowState option" where
  "live_window L key nowMs =
     (case map_get (state L) key of
        None \<Rightarrow> None
      | Some e \<Rightarrow> if nowMs - windowStartMs e \<ge> windowMs L then None else Some e)"

text \<open>Successive calls for one key; the results in call order and the final limiter.\<close>

fun fw_calls :: "FixedWindowRateLimiter \<Rightarrow> string \<Rightarrow> int list \<Rightarrow> bool list \<times> FixedWindowRateLimiter" where
  "fw_calls L key [] = ([], L)"
| "fw_calls L key (t # ts) =
     (let (r, L1) = isRateLimited L key t;
          (rs, L2) = fw_calls L1 key ts
      in (r # rs, L2))"

text \<open>Any interleaving of calls for any keys.\<close>

fun fw_run :: "FixedWindowRateLimiter \<Rightarrow> (string \<times> int) list \<Rightarrow> FixedWindowRateLimiter" where
  "fw_run L [] = L"
| "fw_run L (c # cs) = fw_run (snd (isRateLimited L (fst c) (snd c))) cs"

subsection \<open>Bounded counter\<close>

record CounterState =
  c_count :: int
  updatedAtMs :: int

record counter_options =
  copt_maxTrackedKeys :: int
  copt_ttlMs :: "int option"
  copt_pruneIntervalMs :: "int option"

record BoundedCounter =
  bc_maxTrackedKeys :: int
  ttlMs :: int
  bc_pruneIntervalMs :: int
  counters :: "(string, CounterState) jsmap"
  bc_lastPruneMs :: int

definition createBoundedCounter :: "counter_options \<Rightarrow> BoundedCounter" where
  "createBoundedCounter options =
     (let ttl = max 0 (case copt_ttlMs options of None \<Rightarrow> 0 | Some t \<Rightarrow> t) in
      \<lparr> bc_maxTrackedKeys = max 1 (copt_maxTrackedKeys options),
        ttlMs = ttl,
        bc_pruneIntervalMs =
          max 1 (case copt_pruneIntervalMs options of
                   None \<Rightarrow> (if ttl > 0 then ttl else 60000)
                 | Some p \<Rightarrow> p),
        counters = [],
        bc_lastPruneMs = 0 \<rparr>)"

definition isExpired :: "BoundedCounter \<Rightarrow> CounterState \<Rightarrow> int \<Rightarrow> bool" where
  "isExpired C entry nowMs = (ttlMs C > 0 \<and> nowMs - updatedAtMs entry \<ge> ttlMs C)"

definition bc_prune :: "BoundedCounter \<Rightarrow> int \<Rightarrow> (string, CounterState) jsmap" where
  "bc_prune C nowMs =
     (if ttlMs C > 0 then filter (\<lambda>e. \<not> isExpired C (snd e) nowMs) (counters C)
      else counters C)"

definition bc_maybe_prune :: "BoundedCounter \<Rightarrow> int \<Rightarrow> BoundedCounter" where
  "bc_maybe_prune C nowMs =
     (if nowMs - bc_lastPruneMs C \<ge> bc_pruneIntervalMs C
      then C\<lparr> counters := bc_prune C nowMs, bc_lastPruneMs := nowMs \<rparr>
      else C)"

definition increment :: "BoundedCounter \<Rightarrow> string \<Rightarrow> int \<Rightarrow> int \<times> BoundedCounter" where
  "increment C key nowMs =
     (if key = [] then (0, C)
      else
        let C1 = bc_maybe_prune C nowMs;
            baseCount = (case map_get (counters C1) key of
                           None \<Rightarrow> 0
                         | Some existing \<Rightarrow>
                             if \<not> isExpired C1 existing nowMs then c_count existing else 0);
            nextCount = baseCount + 1
        in (nextCount,
            C1\<lparr> counters := pruneMapToMaxSize
                    (touch (counters C1) key \<lparr> c_count = nextCount, updatedAtMs = nowMs \<rparr>)
                    (bc_maxTrackedKeys C1) \<rparr>))"

definition bc_size :: "BoundedCounter \<Rightarrow> nat" where
  "bc_size C = map_size (counters C)"

definition bc_clear :: "BoundedCounter \<Rightarrow> BoundedCounter" where
  "bc_clear C = C\<lparr> counters := [], bc_lastPruneMs := 0 \<rparr>"

fun bc_run :: "BoundedCounter \<Rightarrow> (string \<times> int) list \<Rightarrow> BoundedCounter" where
  "bc_run C [] = C"
| "bc_run C (c # cs) = bc_run (snd (increment C (fst c) (snd c))) cs"

text \<open>
  Well-formed limiters: the normalised bounds that \<open>createFixedWindowRateLimiter\<close>
  establishes with \<open>Math.max(1, ...)\<close>, and the uniqueness of keys that a \<open>Map\<close> has
  by construction.
\<close>

definition limiter_ok :: "FixedWindowRateLimiter \<Rightarrow> bool" where
  "limiter_ok L \<longleftrightarrow>
     1 \<le> maxRequests L \<and> 1 \<le> maxTrackedKeys L \<and> distinct (map fst (state L))"

text \<open>The limiter of the test "resets counters after the window elapses".\<close>

definition test_limiter :: FixedWindowRateLimiter where
  "test_limiter = createFixedWindowRateLimiter
     \<lparr> opt_windowMs = 10, opt_maxRequests = 1, opt_maxTrackedKeys = 100,
       opt_pruneIntervalMs = None \<rparr>"

text \<open>A counter capped at two keys, after \<open>increment("a", 1000)\<close> and
  \<open>increment("b", 1001)\<close>.\<close>

definition test_counter :: BoundedCounter where
  "test_counter = bc_run
     (createBoundedCounter \<lparr> copt_maxTrackedKeys = 2, copt_ttlMs = None, copt_pruneIntervalMs = None \<rparr>)
     [(''a'', 1000), (''b'', 1001)]"

text \<open>A limiter capped at two keys, and the options of a counter configured with a cap
  of zero keys.\<close>

definition small_limiter :: FixedWindowRateLimiter where
  "small_limiter = createFixedWindowRateLimiter
     \<lparr> opt_windowMs = 10, opt_maxRequests = 1, opt_maxTrackedKeys = 2,
       opt_pruneIntervalMs = None \<rparr>"

definition zero_cap_options :: counter_options where
  "zero_cap_options = \<lparr> copt_maxTrackedKeys = 0, copt_ttlMs = None, copt_pruneIntervalMs = None \<rparr>"

section \<open>Prompt stream projector: values, events and the revision of part_001\<close>

text \<open>
  The source files hold two revisions of the projector module: \<open>src/unnamed/part_001\<close>
  and the module at lines 357 to 637 of \<open>events.test.ts\<close>. This section has what they
  share and the functions of part_001; the other revision has its own section below.
\<close>

subsection \<open>Decoded values and strings\<close>

text \<open>
  A value decoded by \<open>JSON.parse\<close>. An object keeps its members as an association
  list; a number is an integer, or \<open>JNonFinite\<close> for a value on which
  \<open>Number.isFinite\<close> is false (\<open>JSON.parse("1e999")\<close>). Fractions are not represented.
  A string is a list of code units below 256.
\<close>

datatype json =
    JNull
  | JBool bool
  | JNum int
  | JNonFinite
  | JStr string
  | JArr "json list"
  | JObj "(string \<times> json) list"

text \<open>\<open>obj.key\<close> and \<open>obj?.key\<close>: \<open>None\<close> is \<open>undefined\<close>.\<close>

definition getProp :: "(string \<times> json) list \<Rightarrow> string \<Rightarrow> json option" where
  "getProp obj k = map_of obj k"

definition optProp :: "(string \<times> json) list option \<Rightarrow> string \<Rightarrow> json option" where
  "optProp obj k = (case obj of None \<Rightarrow> None | Some r \<Rightarrow> getProp r k)"

definition hasOwn :: "(string \<times> json) list \<Rightarrow> string \<Rightarrow> bool" where
  "hasOwn obj k = (map_of obj k \<noteq> None)"

text \<open>\<open>String.prototype.trim\<close>: tab, LF, VT, FF, CR, space and NBSP are the white
  space and line terminators among the code units below 256.\<close>

definition is_ws :: "char \<Rightarrow> bool" where
  "is_ws c \<longleftrightarrow> of_char c \<in> {9, 10, 11, 12, 13, 32, 160 :: nat}"

definition trim :: "string \<Rightarrow> string" where
  "trim s = rev (dropWhile is_ws (rev (dropWhile is_ws s)))"

text \<open>
  Plain decimal notation. It is what \<open>String(n)\<close> and template interpolation give for an
  integer of magnitude below \<open>10^21\<close>; from there on JavaScript prints an exponent.
  Array lengths are always in that range. For numbers taken from a message the
  projector gets the printing function as a parameter (\<open>numberToString\<close> below), and
  \<open>show_int\<close> is its value in the example environment.
\<close>

definition digit :: "nat \<Rightarrow> char" where
  "digit n = ''0123456789'' ! n"

function show_nat :: "nat \<Rightarrow> string" where
  "show_nat n = (if n < 10 then [digit n] else show_nat (n div 10) @ [digit (n mod 10)])"
  by pat_completeness auto
termination
  by (relation "measure id") auto

declare show_nat.simps [simp del]

definition show_int :: "int \<Rightarrow> string" where
  "show_int i = (if i < 0 then CHR ''-'' # show_nat (nat (- i)) else show_nat (nat i))"

text \<open>
  Modelled from the spec: \<open>isRecord\<close>, \<open>asString\<close>, \<open>asTrimmedString\<close> and
  \<open>asOptionalString\<close> are imported from \<open>./shared.js\<close>, which is not among the
  source files. The spec (section 4.2): "Text extraction never trims the delta" and
  "A present-but-empty text field never produces an event" for the field read with
  \<open>asString\<close>; section 4.1: a message must be "a mapping". The callers fix the result
  types: \<open>asTrimmedString\<close> is compared with string literals and chained with \<open>||\<close>,
  \<open>asString\<close> and \<open>asOptionalString\<close> yield a string or \<open>undefined\<close>.
\<close>

definition isRecord :: "json option \<Rightarrow> bool" where
  "isRecord v = (case v of Some (JObj _) \<Rightarrow> True | _ \<Rightarrow> False)"

definition asRecord :: "json option \<Rightarrow> (string \<times> json) list option" where
  "asRecord v = (case v of Some (JObj r) \<Rightarrow> Some r | _ \<Rightarrow> None)"

definition asString :: "json option \<Rightarrow> string option" where
  "asString v = (case v of Some (JStr s) \<Rightarrow> Some s | _ \<Rightarrow> None)"

definition asTrimmedString :: "json option \<Rightarrow> string" where
  "asTrimmedString v = (case v of Some (JStr s) \<Rightarrow> trim s | _ \<Rightarrow> [])"

definition asOptionalString :: "json option \<Rightarrow> string option" where
  "asOptionalString v = (let t = asTrimmedString v in if t = [] then None else Some t)"

subsection \<open>Runtime events\<close>

datatype stream = Output | Thought

text \<open>
  The closed union \<open>AcpRuntimeEvent\<close>. The projector of part_001 fills only the text,
  stream, stop reason, message and code; the reply pipeline also reads the optional
  tag, tool-call id, status, title, used and size.
\<close>

datatype AcpRuntimeEvent =
    TextDelta (ev_text: string) (ev_stream: "stream option") (ev_tag: "string option")
  | ToolCall (ev_text: string) (ev_tag: "string option") (ev_toolCallId: "string option")
      (ev_status: "string option") (ev_title: "string option")
  | Status (ev_text: string) (ev_tag: "string option") (ev_used: "int option") (ev_size: "int option")
  | Done (ev_stopReason: string)
  | Error (ev_message: string) (ev_code: "string option")

subsection \<open>Collaborators of the projector\<close>

text \<open>
  \<open>JSON.parse\<close> is the runtime's decoder: \<open>None\<close> is a thrown \<open>SyntaxError\<close>.
  \<open>numberToString\<close> is the runtime's \<open>String(n)\<close> on a finite number.
  \<open>isAcpJsonRpcMessage\<close> and \<open>normalizeJsonRpcId\<close> are imported from \<open>./jsonrpc.js\<close>,
  which is not among the source files. The projector takes all four as parameters.
\<close>

record projector_env =
  JSON_parse :: "string \<Rightarrow> json option"
  isAcpJsonRpcMessage :: "(string \<times> json) list \<Rightarrow> bool"
  normalizeJsonRpcId :: "json option \<Rightarrow> string option"
  numberToString :: "int \<Rightarrow> string"

text \<open>
  Modelled from the spec: \<open>isAcpJsonRpcMessage\<close> of the absent \<open>./jsonrpc.js\<close>.
  Section 4.1: "A decoded value qualifies as a protocol message only if it is a mapping
  and either carries \<open>method\<close>, or carries exactly one of \<open>result\<close>/\<open>error\<close> together
  with an \<open>id\<close>."
\<close>

definition spec_isAcpJsonRpcMessage :: "(string \<times> json) list \<Rightarrow> bool" where
  "spec_isAcpJsonRpcMessage m \<longleftrightarrow>
     hasOwn m ''method'' \<or>
     (hasOwn m ''id'' \<and> (hasOwn m ''result'' \<noteq> hasOwn m ''error''))"

text \<open>
  Modelled from the spec: \<open>normalizeJsonRpcId\<close> of the absent \<open>./jsonrpc.js\<close>.
  Section 3: "numbers stringify, strings pass through, missing/null ids normalize to
  'no identifier' (uncorrelatable)."
\<close>

definition spec_normalizeJsonRpcId :: "(int \<Rightarrow> string) \<Rightarrow> json option \<Rightarrow> string option" where
  "spec_normalizeJsonRpcId stringify v =
     (case v of Some (JNum n) \<Rightarrow> Some (stringify n) | Some (JStr s) \<Rightarrow> Some s | _ \<Rightarrow> None)"

subsection \<open>parsePromptStopReason\<close>

definition parsePromptStopReason :: "(string \<times> json) list \<Rightarrow> string option" where
  "parsePromptStopReason message =
     (if \<not> hasOwn message ''result'' then None
      else case asRecord (getProp message ''result'') of
        None \<Rightarrow> None
      | Some result \<Rightarrow>
          (case asString (getProp result ''stopReason'') of
             None \<Rightarrow> None
           | Some stopReason \<Rightarrow>
               if stopReason \<noteq> [] \<and> length (trim stopReason) > 0 then Some stopReason else None))"

subsection \<open>parseSessionUpdateEvent (part_001)\<close>

definition arrayLength :: "json option \<Rightarrow> nat" where
  "arrayLength v = (case v of Some (JArr xs) \<Rightarrow> length xs | _ \<Rightarrow> 0)"

definition arrayEntries :: "json option \<Rightarrow> json list" where
  "arrayEntries v = (case v of Some (JArr xs) \<Rightarrow> xs | _ \<Rightarrow> [])"

text \<open>\<open>entries.find((entry) => isRecord(entry))\<close>\<close>

definition firstRecord :: "json list \<Rightarrow> (string \<times> json) list option" where
  "firstRecord entries = asRecord (find (\<lambda>e. isRecord (Some e)) entries)"

definition finiteNumber :: "json option \<Rightarrow> int option" where
  "finiteNumber v = (case v of Some (JNum n) \<Rightarrow> Some n | _ \<Rightarrow> None)"

definition textChunk :: "(string \<times> json) list \<Rightarrow> stream \<Rightarrow> AcpRuntimeEvent option" where
  "textChunk update s =
     (case asRecord (getProp update ''content'') of
        None \<Rightarrow> None
      | Some content \<Rightarrow>
          if asTrimmedString (getProp content ''type'') \<noteq> ''text'' then None
          else (case asString (getProp content ''text'') of
                  None \<Rightarrow> None
                | Some text \<Rightarrow> if text = [] then None else Some (TextDelta text (Some s) None)))"

definition toolTitle :: "(string \<times> json) list \<Rightarrow> string" where
  "toolTitle update =
     (if asTrimmedString (getProp update ''title'') \<noteq> [] then asTrimmedString (getProp update ''title'')
      else if asTrimmedString (getProp update ''toolCallId'') \<noteq> []
        then asTrimmedString (getProp update ''toolCallId'')
      else if asTrimmedString (getProp update ''kind'') \<noteq> [] then asTrimmedString (getProp update ''kind'')
      else ''tool'')"

definition statusEvent :: "string \<Rightarrow> AcpRuntimeEvent" where
  "statusEvent text = Status text None None None"

definition dispatchUpdate ::
  "projector_env \<Rightarrow> (string \<times> json) list \<Rightarrow> AcpRuntimeEvent option" where
  "dispatchUpdate env update =
     (let sessionUpdate = asTrimmedString (getProp update ''sessionUpdate'') in
      if sessionUpdate = ''agent_message_chunk'' then textChunk update Output
      else if sessionUpdate = ''agent_thought_chunk'' then textChunk update Thought
      else if sessionUpdate = ''tool_call'' \<or> sessionUpdate = ''tool_call_update'' then
        (let title = toolTitle update;
             status = asTrimmedString (getProp update ''status'')
         in Some (ToolCall (if status \<noteq> [] then title @ '' ('' @ status @ '')'' else title)
                    None None None None))
      else if sessionUpdate = ''plan'' then
        (let first = firstRecord (arrayEntries (getProp update ''entries''));
             content = asTrimmedString (optProp first ''content'')
         in if content = [] then Some (statusEvent ''plan updated'')
            else
              let status = asTrimmedString (optProp first ''status'')
              in Some (statusEvent
                   (if status \<noteq> [] then ''plan: ['' @ status @ ''] '' @ content
                    else ''plan: '' @ content)))
      else if sessionUpdate = ''available_commands_update'' then
        Some (statusEvent (''available commands updated ('' @
                show_nat (arrayLength (getProp update ''availableCommands'')) @ '')''))
      else if sessionUpdate = ''current_mode_update'' then
        (let modeId = asTrimmedString (getProp update ''currentModeId'')
         in Some (statusEvent (if modeId \<noteq> [] then ''mode updated: '' @ modeId else ''mode updated'')))
      else if sessionUpdate = ''config_option_update'' then
        Some (statusEvent (''config options updated ('' @
                show_nat (arrayLength (getProp update ''configOptions'')) @ '')''))
      else if sessionUpdate = ''session_info_update'' then
        (let t = asTrimmedString (getProp update ''title'')
         in Some (statusEvent
              (if t \<noteq> [] then ''session info updated: '' @ t else ''session info updated'')))
      else if sessionUpdate = ''usage_update'' then
        (case (finiteNumber (getProp update ''used''), finiteNumber (getProp update ''size'')) of
           (Some u, Some s) \<Rightarrow>
             Some (statusEvent (''usage updated: '' @ numberToString env u @ ''/'' @
                     numberToString env s))
         | _ \<Rightarrow> Some (statusEvent ''usage updated''))
      else None)"

definition parseSessionUpdateEvent ::
  "projector_env \<Rightarrow> (string \<times> json) list \<Rightarrow> AcpRuntimeEvent option" where
  "parseSessionUpdateEvent env message =
     (if asTrimmedString (getProp message ''method'') \<noteq> ''session/update'' then None
      else case asRecord (getProp message ''params'') of
        None \<Rightarrow> None
      | Some params \<Rightarrow>
          (case asRecord (getProp params ''update'') of
             None \<Rightarrow> None
           | Some update \<Rightarrow> dispatchUpdate env update))"

subsection \<open>PromptStreamProjector (part_001)\<close>

text \<open>The projector's state is \<open>promptRequestIds\<close>, a set of normalised ids.\<close>

definition shouldHandlePromptResponse ::
  "projector_env \<Rightarrow> string set \<Rightarrow> (string \<times> json) list \<Rightarrow> bool" where
  "shouldHandlePromptResponse env promptRequestIds message =
     (case normalizeJsonRpcId env (getProp message ''id'') of
        None \<Rightarrow> False
      | Some i \<Rightarrow> if i = [] then False else i \<in> promptRequestIds)"

definition errorCode :: "projector_env \<Rightarrow> json option \<Rightarrow> string option" where
  "errorCode env codeValue =
     (case codeValue of
        Some (JNum n) \<Rightarrow> Some (numberToString env n)
      | _ \<Rightarrow> asOptionalString codeValue)"

definition errorEvent :: "projector_env \<Rightarrow> (string \<times> json) list \<Rightarrow> AcpRuntimeEvent" where
  "errorEvent env parsed =
     (let error = asRecord (getProp parsed ''error'');
          msg = asTrimmedString (optProp error ''message'')
      in Error (if msg \<noteq> [] then msg else ''acpx runtime error'')
               (errorCode env (optProp error ''code'')))"

definition ingestMessage ::
  "projector_env \<Rightarrow> string set \<Rightarrow> (string \<times> json) list \<Rightarrow> AcpRuntimeEvent option \<times> string set" where
  "ingestMessage env promptRequestIds parsed =
     (case parseSessionUpdateEvent env parsed of
        Some updateEvent \<Rightarrow> (Some updateEvent, promptRequestIds)
      | None \<Rightarrow>
          if asTrimmedString (getProp parsed ''method'') = ''session/prompt'' then
            (case normalizeJsonRpcId env (getProp parsed ''id'') of
               None \<Rightarrow> (None, promptRequestIds)
             | Some i \<Rightarrow> if i = [] then (None, promptRequestIds)
                         else (None, insert i promptRequestIds))
          else if hasOwn parsed ''error'' then
            (if \<not> shouldHandlePromptResponse env promptRequestIds parsed
             then (None, promptRequestIds)
             else (Some (errorEvent env parsed), promptRequestIds))
          else
            (case parsePromptStopReason parsed of
               None \<Rightarrow> (None, promptRequestIds)
             | Some stopReason \<Rightarrow>
                 if \<not> shouldHandlePromptResponse env promptRequestIds parsed
                 then (None, promptRequestIds)
                 else (Some (Done stopReason), promptRequestIds)))"

definition ingestLine ::
  "projector_env \<Rightarrow> string set \<Rightarrow> string \<Rightarrow> AcpRuntimeEvent option \<times> string set" where
  "ingestLine env promptRequestIds line =
     (let trimmed = trim line in
      if trimmed = [] then (None, promptRequestIds)
      else case JSON_parse env trimmed of
        None \<Rightarrow> (Some (Status trimmed None None None), promptRequestIds)
      | Some parsed \<Rightarrow>
          (case parsed of
             JObj message \<Rightarrow>
               if \<not> isAcpJsonRpcMessage env message then (None, promptRequestIds)
               else ingestMessage env promptRequestIds message
           | _ \<Rightarrow> (None, promptRequestIds)))"

text \<open>Feeding lines one after another; the events in line order and the final id set.\<close>

fun ingestLines ::
  "projector_env \<Rightarrow> string set \<Rightarrow> string list \<Rightarrow> AcpRuntimeEvent option list \<times> string set" where
  "ingestLines env ids [] = ([], ids)"
| "ingestLines env ids (l # ls) =
     (let (e, ids1) = ingestLine env ids l;
          (es, ids2) = ingestLines env ids1 ls
      in (e # es, ids2))"

subsection \<open>Example lines\<close>

text \<open>
  Lines of the projector's tests (events.test.ts) as \<open>JSON.stringify\<close> prints them,
  with the values \<open>JSON.parse\<close> gives back, and three more lines used below.
\<close>

definition prompt3_line :: string where
  \<open>prompt3_line = ''{"jsonrpc":"2.0","id":3,"method":"session/prompt","params":{"sessionId":"session-1","prompt":[{"type":"text","text":"hello"}]}}''\<close>

definition prompt3_json :: json where
  "prompt3_json = JObj
     [(''jsonrpc'', JStr ''2.0''), (''id'', JNum 3), (''method'', JStr ''session/prompt''),
      (''params'', JObj [(''sessionId'', JStr ''session-1''),
         (''prompt'', JArr [JObj [(''type'', JStr ''text''), (''text'', JStr ''hello'')]])])]"

definition error1_line :: string where
  \<open>error1_line = ''{"jsonrpc":"2.0","id":1,"error":{"code":-32002,"message":"Resource not found"}}''\<close>

definition error1_json :: json where
  "error1_json = JObj
     [(''jsonrpc'', JStr ''2.0''), (''id'', JNum 1),
      (''error'', JObj [(''code'', JNum (- 32002)), (''message'', JStr ''Resource not found'')])]"

definition error3_line :: string where
  \<open>error3_line = ''{"jsonrpc":"2.0","id":3,"error":{"code":-32000,"message":"adapter failed"}}''\<close>

definition error3_json :: json where
  "error3_json = JObj
     [(''jsonrpc'', JStr ''2.0''), (''id'', JNum 3),
      (''error'', JObj [(''code'', JNum (- 32000)), (''message'', JStr ''adapter failed'')])]"

definition done3_line :: string where
  \<open>done3_line = ''{"jsonrpc":"2.0","id":3,"result":{"stopReason":"end_turn"}}''\<close>

definition done3_json :: json where
  "done3_json = JObj
     [(''jsonrpc'', JStr ''2.0''), (''id'', JNum 3),
      (''result'', JObj [(''stopReason'', JStr ''end_turn'')])]"

definition chunk_line :: string where
  \<open>chunk_line = ''{"jsonrpc":"2.0","method":"session/update","params":{"sessionId":"session-1","update":{"sessionUpdate":"agent_message_chunk","content":{"type":"text","text":"  indented"}}}}''\<close>

definition chunk_update :: "(string \<times> json) list" where
  "chunk_update =
     [(''sessionUpdate'', JStr ''agent_message_chunk''),
      (''content'', JObj [(''type'', JStr ''text''), (''text'', JStr ''  indented'')])]"

definition update_message :: "(string \<times> json) list \<Rightarrow> (string \<times> json) list" where
  "update_message update =
     [(''jsonrpc'', JStr ''2.0''), (''method'', JStr ''session/update''),
      (''params'', JObj [(''sessionId'', JStr ''session-1''), (''update'', JObj update)])]"

text \<open>A message chunk whose content has no \<open>type\<close>, and one with a top-level text only.\<close>

definition untyped_chunk_update :: "(string \<times> json) list" where
  "untyped_chunk_update =
     [(''sessionUpdate'', JStr ''agent_message_chunk''),
      (''content'', JObj [(''text'', JStr ''hi'')])]"

definition fallback_chunk_update :: "(string \<times> json) list" where
  "fallback_chunk_update =
     [(''sessionUpdate'', JStr ''agent_message_chunk''), (''text'', JStr ''hi'')]"



text \<open>A response with id 3 whose stop reason is two spaces.\<close>

definition blank3_line :: string where
  \<open>blank3_line = ''{"jsonrpc":"2.0","id":3,"result":{"stopReason":"  "}}''\<close>

definition blank3_json :: json where
  "blank3_json = JObj
     [(''jsonrpc'', JStr ''2.0''), (''id'', JNum 3),
      (''result'', JObj [(''stopReason'', JStr ''  '')])]"













text \<open>The decoder on these lines; every other text is rejected, as \<open>not json\<close> is.\<close>

definition test_parse :: "string \<Rightarrow> json option" where
  "test_parse s =
     map_of [(prompt3_line, prompt3_json), (error1_line, error1_json),
             (error3_line, error3_json), (done3_line, done3_json),
             (chunk_line, JObj (update_message chunk_update)),
             (blank3_line, blank3_json)] s"

definition test_env :: projector_env where
  "test_env = \<lparr> JSON_parse = test_parse,
                 isAcpJsonRpcMessage = spec_isAcpJsonRpcMessage,
                 normalizeJsonRpcId = spec_normalizeJsonRpcId show_int,
                 numberToString = show_int \<rparr>"

section \<open>Reply projection pipeline (createAcpReplyProjector)\<close>

text \<open>
  The second module in the source file process.ts (lines 251 to 734). Its
  collaborators are not among the source files: the block chunker, the block reply
  pipeline, \<open>prefixSystemMessage\<close> and the tool display formatter. The calls made
  to the chunker, to the block reply pipeline and to the injected \<open>deliver\<close> are
  recorded, in order, as actions; the two text functions are parameters. Each
  \<open>await\<close> is taken to return normally.
\<close>

subsection \<open>Settings\<close>

datatype AcpDeliveryMode = live | final_only

datatype AcpMetaMode = meta_off | minimal | verbose

record AcpProjectionSettings =
  deliveryMode :: AcpDeliveryMode
  metaMode :: AcpMetaMode
  showUsage :: bool
  maxTurnChars :: nat
  maxToolSummaryChars :: nat
  maxStatusChars :: nat
  maxMetaEventsPerTurn :: nat
  tagVisibility :: "string \<Rightarrow> bool option"

text \<open>
  \<open>clampPositiveInteger\<close>: \<open>None\<close> is a value that is not a finite number;
  \<open>Math.round\<close> is the identity on the integers modelled. Every bound used has
  \<open>min \<ge> 0\<close>, so the result is a natural number.
\<close>

definition clampPositiveInteger :: "int option \<Rightarrow> nat \<Rightarrow> nat \<Rightarrow> nat \<Rightarrow> nat" where
  "clampPositiveInteger v fallback bmin bmax =
     (case v of
        None \<Rightarrow> fallback
      | Some rounded \<Rightarrow>
          if rounded < int bmin then bmin
          else if rounded > int bmax then bmax
          else nat rounded)"

text \<open>The \<open>acp.stream\<close> section of the configuration, as far as the projector reads it.
  An option that is absent or of the wrong type is \<open>None\<close>.\<close>

record stream_config =
  cfg_deliveryMode :: "string option"
  cfg_metaMode :: "string option"
  cfg_showUsage :: "bool option"
  cfg_maxTurnChars :: "int option"
  cfg_maxToolSummaryChars :: "int option"
  cfg_maxStatusChars :: "int option"
  cfg_maxMetaEventsPerTurn :: "int option"
  cfg_tagVisibility :: "(string \<Rightarrow> bool option) option"

definition resolveAcpDeliveryMode :: "string option \<Rightarrow> AcpDeliveryMode" where
  "resolveAcpDeliveryMode v = (if v = Some ''final_only'' then final_only else live)"

definition resolveAcpMetaMode :: "string option \<Rightarrow> AcpMetaMode" where
  "resolveAcpMetaMode v =
     (if v = Some ''off'' then meta_off
      else if v = Some ''minimal'' then minimal
      else if v = Some ''verbose'' then verbose
      else minimal)"

definition resolveAcpProjectionSettings :: "stream_config \<Rightarrow> AcpProjectionSettings" where
  "resolveAcpProjectionSettings stream =
     \<lparr> deliveryMode = resolveAcpDeliveryMode (cfg_deliveryMode stream),
       metaMode = resolveAcpMetaMode (cfg_metaMode stream),
       showUsage = (case cfg_showUsage stream of Some b \<Rightarrow> b | None \<Rightarrow> False),
       maxTurnChars = clampPositiveInteger (cfg_maxTurnChars stream) 24000 1 500000,
       maxToolSummaryChars = clampPositiveInteger (cfg_maxToolSummaryChars stream) 320 64 8000,
       maxStatusChars = clampPositiveInteger (cfg_maxStatusChars stream) 320 64 8000,
       maxMetaEventsPerTurn = clampPositiveInteger (cfg_maxMetaEventsPerTurn stream) 64 1 2000,
       tagVisibility = (case cfg_tagVisibility stream of Some m \<Rightarrow> m | None \<Rightarrow> Map.empty) \<rparr>"

definition ACP_TAG_VISIBILITY_DEFAULTS :: "(string \<times> bool) list" where
  "ACP_TAG_VISIBILITY_DEFAULTS =
     [(''agent_message_chunk'', True), (''tool_call'', True), (''tool_call_update'', True),
      (''usage_update'', False), (''available_commands_update'', False),
      (''current_mode_update'', False), (''config_option_update'', False),
      (''session_info_update'', False), (''plan'', False), (''agent_thought_chunk'', False)]"

definition TERMINAL_TOOL_STATUSES :: "string set" where
  "TERMINAL_TOOL_STATUSES = {''completed'', ''failed'', ''cancelled'', ''done'', ''error''}"

definition isTagVisible :: "AcpProjectionSettings \<Rightarrow> string option \<Rightarrow> bool" where
  "isTagVisible s tag =
     (case tag of
        None \<Rightarrow> True
      | Some t \<Rightarrow>
          if t = [] then True
          else (case tagVisibility s t of
                  Some override \<Rightarrow> override
                | None \<Rightarrow> (case map_of ACP_TAG_VISIBILITY_DEFAULTS t of
                             Some d \<Rightarrow> d
                           | None \<Rightarrow> True)))"

subsection \<open>Text helpers\<close>

text \<open>The code unit that stands for the horizontal ellipsis U+2026 (one UTF-16 unit).
  Strings here are lists of code units below 256, so the stand-in is one of them
  (0x85); an input that itself contains the unit 0x85 is outside of what the model
  tells apart from a truncated one.\<close>

definition ellipsis :: char where
  "ellipsis = CHR 0x85"

definition truncateText :: "string \<Rightarrow> nat \<Rightarrow> string" where
  "truncateText input maxChars =
     (if length input \<le> maxChars then input
      else if maxChars \<le> 1 then take maxChars input
      else take (maxChars - 1) input @ [ellipsis])"

definition hashText :: "string \<Rightarrow> string" where
  "hashText text = trim text"

text \<open>\<open>toLowerCase\<close> on code units below 256: A to Z, and the Latin-1 capitals
  except the multiplication sign.\<close>

definition lower_char :: "char \<Rightarrow> char" where
  "lower_char c =
     (let n = (of_char c :: nat) in
      if (65 \<le> n \<and> n \<le> 90) \<or> (192 \<le> n \<and> n \<le> 222 \<and> n \<noteq> 215)
      then char_of (n + 32) else c)"

definition toLowerCase :: "string \<Rightarrow> string" where
  "toLowerCase s = map lower_char s"

definition normalizeToolStatus :: "string option \<Rightarrow> string option" where
  "normalizeToolStatus status =
     (case status of
        None \<Rightarrow> None
      | Some st \<Rightarrow>
          if st = [] then None
          else let normalized = toLowerCase (trim st)
               in if normalized = [] then None else Some normalized)"

text \<open>\<open>x?.trim()\<close> followed by a truth test: the trimmed text when it is not empty.\<close>

definition trimmedNonEmpty :: "string option \<Rightarrow> string option" where
  "trimmedNonEmpty v =
     (case v of None \<Rightarrow> None | Some t \<Rightarrow> if trim t = [] then None else Some (trim t))"

text \<open>\<open>detailParts.join(" \<cdot> ")\<close>; the middle dot is the code unit 0xB7.\<close>

fun joinParts :: "string list \<Rightarrow> string" where
  "joinParts [] = []"
| "joinParts [p] = p"
| "joinParts (p # q # ps) = p @ [CHR '' '', CHR 0xB7, CHR '' ''] @ joinParts (q # ps)"

subsection \<open>Actions and state\<close>

record AcpProjectedDeliveryMeta =
  m_tag :: "string option"
  m_toolCallId :: "string option"
  m_toolStatus :: "string option"
  m_allowEdit :: "bool option"

record ToolLifecycleState =
  started :: bool
  terminal :: bool
  lastRenderedHash :: "string option"

datatype action =
    ChunkerAppend string
  | ChunkerDrain bool
  | PipelineFlush bool
  | DeliverTool string "AcpProjectedDeliveryMeta option"

text \<open>
  What \<open>createAcpReplyProjector\<close> closes over and never changes: the resolved settings,
  \<open>shouldSendToolSummaries\<close>, and the two absent text functions:
  \<open>prefixSystemMessage\<close>, and \<open>toolSummaryDisplay meta\<close> for
  \<open>formatToolSummary(resolveToolDisplay({name: "tool_call", meta}))\<close>.
\<close>

record reply_env =
  settings :: AcpProjectionSettings
  shouldSendToolSummaries :: bool
  prefixSystemMessage :: "string \<Rightarrow> string"
  toolSummaryDisplay :: "string \<Rightarrow> string"

text \<open>The turn-scoped variables, and the actions performed so far.\<close>

record turn_state =
  emittedTurnChars :: nat
  emittedMetaEvents :: nat
  truncationNoticeEmitted :: bool
  lastStatusHash :: "string option"
  lastToolHash :: "string option"
  lastUsageTuple :: "string option"
  toolLifecycleById :: "string \<Rightarrow> ToolLifecycleState option"
  actions :: "action list"

definition initial_state :: turn_state where
  "initial_state =
     \<lparr> emittedTurnChars = 0, emittedMetaEvents = 0, truncationNoticeEmitted = False,
       lastStatusHash = None, lastToolHash = None, lastUsageTuple = None,
       toolLifecycleById = Map.empty, actions = [] \<rparr>"

definition resetTurnState :: "turn_state \<Rightarrow> turn_state" where
  "resetTurnState s =
     s\<lparr> emittedTurnChars := 0, emittedMetaEvents := 0, truncationNoticeEmitted := False,
        lastStatusHash := None, lastToolHash := None, lastUsageTuple := None,
        toolLifecycleById := Map.empty \<rparr>"

definition perform :: "action \<Rightarrow> turn_state \<Rightarrow> turn_state" where
  "perform a s = s\<lparr> actions := actions s @ [a] \<rparr>"

definition drainChunker :: "reply_env \<Rightarrow> bool \<Rightarrow> turn_state \<Rightarrow> turn_state" where
  "drainChunker env force s =
     (if deliveryMode (settings env) = final_only \<and> \<not> force then s
      else perform (ChunkerDrain force) s)"

definition flushReply :: "reply_env \<Rightarrow> bool \<Rightarrow> turn_state \<Rightarrow> turn_state" where
  "flushReply env force s = perform (PipelineFlush force) (drainChunker env force s)"

definition consumeMetaQuota :: "reply_env \<Rightarrow> bool \<Rightarrow> turn_state \<Rightarrow> bool \<times> turn_state" where
  "consumeMetaQuota env force s =
     (if force then (True, s)
      else if emittedMetaEvents s \<ge> maxMetaEventsPerTurn (settings env) then (False, s)
      else (True, s\<lparr> emittedMetaEvents := emittedMetaEvents s + 1 \<rparr>))"

subsection \<open>emitSystemStatus, emitTruncationNotice\<close>

definition emitSystemStatus ::
  "reply_env \<Rightarrow> string \<Rightarrow> AcpProjectedDeliveryMeta option \<Rightarrow> bool \<Rightarrow> bool \<Rightarrow>
     turn_state \<Rightarrow> turn_state" where
  "emitSystemStatus env text meta force dedupe s =
     (if \<not> shouldSendToolSummaries env then s
      else if metaMode (settings env) = meta_off \<and> \<not> force then s
      else
        let bounded = truncateText (trim text) (maxStatusChars (settings env)) in
        if bounded = [] then s
        else
          let formatted = prefixSystemMessage env bounded;
              hash = hashText formatted
          in if dedupe \<and> lastStatusHash s = Some hash then s
             else case consumeMetaQuota env force s of
               (False, _) \<Rightarrow> s
             | (True, s1) \<Rightarrow>
                 let s2 = (if deliveryMode (settings env) = live then flushReply env True s1 else s1);
                     s3 = perform (DeliverTool formatted meta) s2
                 in s3\<lparr> lastStatusHash := Some hash \<rparr>)"

definition truncationMeta :: AcpProjectedDeliveryMeta where
  "truncationMeta = \<lparr> m_tag = Some ''session_info_update'', m_toolCallId = None,
                       m_toolStatus = None, m_allowEdit = None \<rparr>"

definition emitTruncationNotice :: "reply_env \<Rightarrow> turn_state \<Rightarrow> turn_state" where
  "emitTruncationNotice env s =
     (if truncationNoticeEmitted s then s
      else emitSystemStatus env ''output truncated'' (Some truncationMeta) True False
             (s\<lparr> truncationNoticeEmitted := True \<rparr>))"

subsection \<open>emitToolSummary\<close>

definition renderToolSummaryText ::
  "reply_env \<Rightarrow> string \<Rightarrow> string option \<Rightarrow> string option \<Rightarrow> string" where
  "renderToolSummaryText env text status title =
     (let titlePart = (case trimmedNonEmpty title of Some t \<Rightarrow> [t] | None \<Rightarrow> []);
          statusPart = (case trimmedNonEmpty status of Some st \<Rightarrow> [''status='' @ st] | None \<Rightarrow> []);
          detailParts0 = titlePart @ statusPart;
          detailParts = (if detailParts0 = [] \<and> trim text \<noteq> [] then [trim text] else detailParts0);
          joined = joinParts detailParts
      in toolSummaryDisplay env (if joined = [] then ''tool call'' else joined))"

definition toolMeta ::
  "string option \<Rightarrow> string option \<Rightarrow> string option \<Rightarrow> AcpProjectedDeliveryMeta" where
  "toolMeta tag toolCallId status =
     \<lparr> m_tag = (case tag of Some t \<Rightarrow> if t = [] then None else Some t | None \<Rightarrow> None),
       m_toolCallId = toolCallId,
       m_toolStatus = status,
       m_allowEdit = Some (toolCallId \<noteq> None \<and> tag = Some ''tool_call_update'') \<rparr>"

text \<open>The last steps of \<open>emitToolSummary\<close>, after the dedup guards have let the event
  through with the state \<open>s\<close> they leave.\<close>

definition deliverToolSummary ::
  "reply_env \<Rightarrow> string \<Rightarrow> AcpProjectedDeliveryMeta \<Rightarrow> string \<Rightarrow> bool \<Rightarrow>
     turn_state \<Rightarrow> turn_state" where
  "deliverToolSummary env toolSummary meta hash force s =
     (case consumeMetaQuota env force s of
        (False, _) \<Rightarrow> s
      | (True, s1) \<Rightarrow>
          let s2 = (if deliveryMode (settings env) = live then flushReply env True s1 else s1);
              s3 = perform (DeliverTool toolSummary (Some meta)) s2
          in s3\<lparr> lastToolHash := Some hash \<rparr>)"

definition emitToolSummary ::
  "reply_env \<Rightarrow> string \<Rightarrow> string option \<Rightarrow> string option \<Rightarrow> string option \<Rightarrow> string option \<Rightarrow>
     bool \<Rightarrow> turn_state \<Rightarrow> turn_state" where
  "emitToolSummary env text tag toolCallId0 status0 title force s =
     (if \<not> shouldSendToolSummaries env \<or> metaMode (settings env) = meta_off then s
      else if \<not> isTagVisible (settings env) tag then s
      else
        let toolSummary = truncateText (renderToolSummaryText env text status0 title)
                            (maxToolSummaryChars (settings env));
            hash = hashText toolSummary;
            toolCallId = trimmedNonEmpty toolCallId0;
            status = normalizeToolStatus status0;
            isTerminal = (case status of Some st \<Rightarrow> st \<in> TERMINAL_TOOL_STATUSES | None \<Rightarrow> False);
            isStart = (status = Some ''in_progress'' \<or> tag = Some ''tool_call'');
            meta = toolMeta tag toolCallId status
        in
          if metaMode (settings env) = verbose then
            (if lastToolHash s = Some hash then s
             else deliverToolSummary env toolSummary meta hash force s)
          else
            (case toolCallId of
               Some tid \<Rightarrow>
                 let st = (case toolLifecycleById s tid of
                             Some existing \<Rightarrow> existing
                           | None \<Rightarrow> \<lparr> started = False, terminal = False, lastRenderedHash = None \<rparr>)
                 in if isTerminal \<and> terminal st then s
                    else if isStart \<and> started st then s
                    else if lastRenderedHash st = Some hash then s
                    else
                      let st1 = st\<lparr> started := started st \<or> isStart,
                                     terminal := terminal st \<or> isTerminal,
                                     lastRenderedHash := Some hash \<rparr>
                      in deliverToolSummary env toolSummary meta hash force
                           (s\<lparr> toolLifecycleById := (toolLifecycleById s)(tid \<mapsto> st1) \<rparr>)
             | None \<Rightarrow>
                 if lastToolHash s = Some hash then s
                 else deliverToolSummary env toolSummary meta hash force s))"

subsection \<open>onEvent\<close>

definition statusMeta :: "string option \<Rightarrow> AcpProjectedDeliveryMeta option" where
  "statusMeta tag =
     (case tag of
        None \<Rightarrow> None
      | Some t \<Rightarrow>
          if t = [] then None
          else Some \<lparr> m_tag = Some t, m_toolCallId = None, m_toolStatus = None, m_allowEdit = None \<rparr>)"

definition onTextDelta ::
  "reply_env \<Rightarrow> string \<Rightarrow> stream option \<Rightarrow> string option \<Rightarrow> turn_state \<Rightarrow> turn_state" where
  "onTextDelta env text strm tag s =
     (if strm \<noteq> None \<and> strm \<noteq> Some Output then s
      else if \<not> isTagVisible (settings env) tag then s
      else if text = [] then s
      else if emittedTurnChars s \<ge> maxTurnChars (settings env) then emitTruncationNotice env s
      else
        let remaining = maxTurnChars (settings env) - emittedTurnChars s;
            accepted = (if remaining < length text then take remaining text else text);
            s1 = (if length accepted > 0
                  then drainChunker env False
                         ((perform (ChunkerAppend accepted) s)
                            \<lparr> emittedTurnChars := emittedTurnChars s + length accepted \<rparr>)
                  else s)
        in if length accepted < length text then emitTruncationNotice env s1 else s1)"

definition onStatus ::
  "reply_env \<Rightarrow> string \<Rightarrow> string option \<Rightarrow> int option \<Rightarrow> int option \<Rightarrow> turn_state \<Rightarrow> turn_state" where
  "onStatus env text tag usedv sizev s =
     (if \<not> isTagVisible (settings env) tag then s
      else if tag = Some ''usage_update'' then
        (if \<not> showUsage (settings env) then s
         else
           let usageTuple = (case (usedv, sizev) of
                               (Some u, Some z) \<Rightarrow> show_int u @ ''/'' @ show_int z
                             | _ \<Rightarrow> hashText text)
           in if lastUsageTuple s = Some usageTuple then s
              else emitSystemStatus env text (statusMeta tag) False True
                     (s\<lparr> lastUsageTuple := Some usageTuple \<rparr>))
      else emitSystemStatus env text (statusMeta tag) False True s)"

fun onEvent :: "reply_env \<Rightarrow> turn_state \<Rightarrow> AcpRuntimeEvent \<Rightarrow> turn_state" where
  "onEvent env s (TextDelta text strm tag) = onTextDelta env text strm tag s"
| "onEvent env s (Status text tag usedv sizev) = onStatus env text tag usedv sizev s"
| "onEvent env s (ToolCall text tag toolCallId status title) =
     emitToolSummary env text tag toolCallId status title False s"
| "onEvent env s (Done stopReason) = resetTurnState (flushReply env True s)"
| "onEvent env s (Error msg c) = resetTurnState (flushReply env True s)"

text \<open>Events consumed one after another, each call completed before the next.\<close>

definition runEvents :: "reply_env \<Rightarrow> turn_state \<Rightarrow> AcpRuntimeEvent list \<Rightarrow> turn_state" where
  "runEvents env s es = foldl (onEvent env) s es"

subsection \<open>Reading the actions\<close>

text \<open>The text handed to the chunker, in order, and the direct deliveries.\<close>

fun appendedText :: "action list \<Rightarrow> string" where
  "appendedText [] = []"
| "appendedText (ChunkerAppend t # as) = t @ appendedText as"
| "appendedText (a # as) = appendedText as"

fun deliveries :: "action list \<Rightarrow> (string \<times> AcpProjectedDeliveryMeta option) list" where
  "deliveries [] = []"
| "deliveries (DeliverTool t m # as) = (t, m) # deliveries as"
| "deliveries (a # as) = deliveries as"

text \<open>The text of the events that \<open>onEvent\<close> counts against the turn budget: output
  stream (or no stream given), visible tag.\<close>

fun budgetText :: "reply_env \<Rightarrow> AcpRuntimeEvent \<Rightarrow> string" where
  "budgetText env (TextDelta text strm tag) =
     (if (strm = None \<or> strm = Some Output) \<and> isTagVisible (settings env) tag then text else [])"
| "budgetText env e = []"

definition is_text_delta :: "AcpRuntimeEvent \<Rightarrow> bool" where
  "is_text_delta e = (case e of TextDelta _ _ _ \<Rightarrow> True | _ \<Rightarrow> False)"

definition is_boundary :: "AcpRuntimeEvent \<Rightarrow> bool" where
  "is_boundary e = (case e of Done _ \<Rightarrow> True | Error _ _ \<Rightarrow> True | _ \<Rightarrow> False)"

subsection \<open>Helper predicates for the pipeline's theorems\<close>

text \<open>The actions of the implicit forced flush that precedes a delivery in live mode.\<close>

definition liveFlush :: "reply_env \<Rightarrow> action list" where
  "liveFlush env =
     (if deliveryMode (settings env) = live then [ChunkerDrain True, PipelineFlush True] else [])"

text \<open>The guards of \<open>emitSystemStatus\<close>, read off its early returns.\<close>

definition statusDelivers :: "reply_env \<Rightarrow> string \<Rightarrow> bool \<Rightarrow> bool \<Rightarrow> turn_state \<Rightarrow> bool" where
  "statusDelivers env text force dedupe s \<longleftrightarrow>
     shouldSendToolSummaries env \<and> (metaMode (settings env) \<noteq> meta_off \<or> force) \<and>
     truncateText (trim text) (maxStatusChars (settings env)) \<noteq> [] \<and>
     \<not> (dedupe \<and> lastStatusHash s = Some (hashText (prefixSystemMessage env
            (truncateText (trim text) (maxStatusChars (settings env)))))) \<and>
     (force \<or> emittedMetaEvents s < maxMetaEventsPerTurn (settings env))"

definition usageTupleOf :: "string \<Rightarrow> int option \<Rightarrow> int option \<Rightarrow> string" where
  "usageTupleOf text usedv sizev =
     (case (usedv, sizev) of
        (Some u, Some z) \<Rightarrow> show_int u @ ''/'' @ show_int z
      | _ \<Rightarrow> hashText text)"

text \<open>The guards of the status branch of \<open>onEvent\<close> together with those of
  \<open>emitSystemStatus\<close>.\<close>

definition statusAccepted ::
  "reply_env \<Rightarrow> string \<Rightarrow> string option \<Rightarrow> int option \<Rightarrow> int option \<Rightarrow> turn_state \<Rightarrow> bool" where
  "statusAccepted env text tag usedv sizev s \<longleftrightarrow>
     isTagVisible (settings env) tag \<and>
     (tag \<noteq> Some ''usage_update'' \<or>
        (showUsage (settings env) \<and> lastUsageTuple s \<noteq> Some (usageTupleOf text usedv sizev))) \<and>
     statusDelivers env text False True s"

definition statusDelivery ::
  "reply_env \<Rightarrow> string \<Rightarrow> string option \<Rightarrow> string \<times> AcpProjectedDeliveryMeta option" where
  "statusDelivery env text tag =
     (prefixSystemMessage env (truncateText (trim text) (maxStatusChars (settings env))),
      statusMeta tag)"

definition noticeDelivery :: "reply_env \<Rightarrow> string \<times> AcpProjectedDeliveryMeta option" where
  "noticeDelivery env = (prefixSystemMessage env ''output truncated'', Some truncationMeta)"

subsection \<open>Example configurations\<close>

text \<open>A configuration that sets only \<open>maxTurnChars = 5\<close>; everything else takes its
  default. The two text functions are given simple stand-ins.\<close>

definition test_stream_config :: stream_config where
  "test_stream_config =
     \<lparr> cfg_deliveryMode = None, cfg_metaMode = None, cfg_showUsage = None,
       cfg_maxTurnChars = Some 5, cfg_maxToolSummaryChars = None, cfg_maxStatusChars = None,
       cfg_maxMetaEventsPerTurn = None, cfg_tagVisibility = None \<rparr>"

definition test_reply_env :: reply_env where
  "test_reply_env =
     \<lparr> settings = resolveAcpProjectionSettings test_stream_config,
       shouldSendToolSummaries = True,
       prefixSystemMessage = (\<lambda>t. ''System: '' @ t),
       toolSummaryDisplay = (\<lambda>m. ''Tool Call: '' @ m) \<rparr>"

text \<open>The same with tool summaries switched off by the caller.\<close>

definition quiet_reply_env :: reply_env where
  "quiet_reply_env = test_reply_env\<lparr> shouldSendToolSummaries := False \<rparr>"

subsection \<open>Reading tool deliveries\<close>

text \<open>The lifecycle flags recorded for a tool-call id; an id without an entry has
  neither.\<close>

definition lcTerminal :: "turn_state \<Rightarrow> string \<Rightarrow> bool" where
  "lcTerminal s x = (case toolLifecycleById s x of Some st \<Rightarrow> terminal st | None \<Rightarrow> False)"

definition lcStarted :: "turn_state \<Rightarrow> string \<Rightarrow> bool" where
  "lcStarted s x = (case toolLifecycleById s x of Some st \<Rightarrow> started st | None \<Rightarrow> False)"

definition lcLastHash :: "turn_state \<Rightarrow> string \<Rightarrow> string option" where
  "lcLastHash s x = (case toolLifecycleById s x of Some st \<Rightarrow> lastRenderedHash st | None \<Rightarrow> None)"

text \<open>A delivery that announces a terminal status, or a start, of tool call \<open>x\<close>, told
  by the delivery's meta as \<open>emitToolSummary\<close> fills it.\<close>

definition isTerminalDelivery :: "string \<Rightarrow> string \<times> AcpProjectedDeliveryMeta option \<Rightarrow> bool" where
  "isTerminalDelivery x d =
     (case snd d of
        None \<Rightarrow> False
      | Some m \<Rightarrow> m_toolCallId m = Some x \<and>
          (case m_toolStatus m of Some st \<Rightarrow> st \<in> TERMINAL_TOOL_STATUSES | None \<Rightarrow> False))"

definition isStartDelivery :: "string \<Rightarrow> string \<times> AcpProjectedDeliveryMeta option \<Rightarrow> bool" where
  "isStartDelivery x d =
     (case snd d of
        None \<Rightarrow> False
      | Some m \<Rightarrow> m_toolCallId m = Some x \<and>
          (m_toolStatus m = Some ''in_progress'' \<or> m_tag m = Some ''tool_call''))"

definition isDeliveryFor :: "string \<Rightarrow> string \<times> AcpProjectedDeliveryMeta option \<Rightarrow> bool" where
  "isDeliveryFor x d = (case snd d of None \<Rightarrow> False | Some m \<Rightarrow> m_toolCallId m = Some x)"

definition countTerminal :: "string \<Rightarrow> turn_state \<Rightarrow> nat" where
  "countTerminal x s = length (filter (isTerminalDelivery x) (deliveries (actions s)))"

definition countStart :: "string \<Rightarrow> turn_state \<Rightarrow> nat" where
  "countStart x s = length (filter (isStartDelivery x) (deliveries (actions s)))"

definition countFor :: "string \<Rightarrow> turn_state \<Rightarrow> nat" where
  "countFor x s = length (filter (isDeliveryFor x) (deliveries (actions s)))"

text \<open>The hash \<open>emitToolSummary\<close> computes for a tool-call event.\<close>

definition toolHash ::
  "reply_env \<Rightarrow> string \<Rightarrow> string option \<Rightarrow> string option \<Rightarrow> string" where
  "toolHash env text status title =
     hashText (truncateText (renderToolSummaryText env text status title)
                 (maxToolSummaryChars (settings env)))"

text \<open>Three updates of tool call \<open>call-1\<close>: completed, then two further updates with
  no status and different titles.\<close>

definition tool_completed :: AcpRuntimeEvent where
  "tool_completed = ToolCall ''exec (completed)'' (Some ''tool_call_update'') (Some ''call-1'')
     (Some ''completed'') (Some ''exec'')"

definition tool_output1 :: AcpRuntimeEvent where
  "tool_output1 = ToolCall ''exec: line 1'' (Some ''tool_call_update'') (Some ''call-1'')
     None (Some ''exec: line 1'')"

definition tool_output2 :: AcpRuntimeEvent where
  "tool_output2 = ToolCall ''exec: line 2'' (Some ''tool_call_update'') (Some ''call-1'')
     None (Some ''exec: line 2'')"

text \<open>\<open>isTerminal\<close> and \<open>isStart\<close> of \<open>emitToolSummary\<close>, from the event's status and
  tag.\<close>

definition evTerminal :: "string option \<Rightarrow> bool" where
  "evTerminal status0 =
     (case normalizeToolStatus status0 of Some st \<Rightarrow> st \<in> TERMINAL_TOOL_STATUSES | None \<Rightarrow> False)"

definition evStart :: "string option \<Rightarrow> string option \<Rightarrow> bool" where
  "evStart status0 tag = (normalizeToolStatus status0 = Some ''in_progress'' \<or> tag = Some ''tool_call'')"

text \<open>A delivery that carries no tool-call id; and the deliveries of the three example
  updates under the example configuration.\<close>

definition untagged :: "string \<times> AcpProjectedDeliveryMeta option \<Rightarrow> bool" where
  "untagged d = (case snd d of None \<Rightarrow> True | Some m \<Rightarrow> m_toolCallId m = None)"

definition summary_completed :: string where
  "summary_completed = ''Tool Call: exec'' @ [CHR '' '', CHR 0xB7, CHR '' ''] @ ''status=completed''"

definition meta_completed :: AcpProjectedDeliveryMeta where
  "meta_completed = \<lparr> m_tag = Some ''tool_call_update'', m_toolCallId = Some ''call-1'',
     m_toolStatus = Some ''completed'', m_allowEdit = Some True \<rparr>"

definition meta_update :: AcpProjectedDeliveryMeta where
  "meta_update = \<lparr> m_tag = Some ''tool_call_update'', m_toolCallId = Some ''call-1'',
     m_toolStatus = None, m_allowEdit = Some True \<rparr>"


section \<open>Prompt stream projector: the revision with consumePromptResponse\<close>

text \<open>
  The module at lines 357 to 637 of \<open>events.test.ts\<close>. Its events carry the tag, tool-call
  id, status and title that the reply pipeline reads. It differs from part_001 in four
  ways: text chunks are read by \<open>resolveTextChunk\<close> (the content type may be absent, with
  a fallback to \<open>update.text\<close>), status texts come from \<open>resolveStatusTextForTag\<close>,
  session updates are passed on only while a prompt is awaited, and
  \<open>consumePromptResponse\<close> deletes the id it matches. Where a name is that of
  part_001's function, the suffix \<open>_gated\<close> is added.
\<close>

definition asOptionalFiniteNumber :: "json option \<Rightarrow> int option" where
  "asOptionalFiniteNumber v = (case v of Some (JNum n) \<Rightarrow> Some n | _ \<Rightarrow> None)"

definition resolveTextChunk ::
  "(string \<times> json) list \<Rightarrow> stream \<Rightarrow> string \<Rightarrow> AcpRuntimeEvent option" where
  "resolveTextChunk update strm tag =
     (let fallback =
            (case asString (getProp update ''text'') of
               None \<Rightarrow> None
             | Some t \<Rightarrow> if t = [] then None else Some (TextDelta t (Some strm) (Some tag)))
      in case asRecord (getProp update ''content'') of
           None \<Rightarrow> fallback
         | Some contentRaw \<Rightarrow>
             let contentType = asTrimmedString (getProp contentRaw ''type'') in
             if contentType \<noteq> [] \<and> contentType \<noteq> ''text'' then None
             else (case asString (getProp contentRaw ''text'') of
                     None \<Rightarrow> fallback
                   | Some t \<Rightarrow>
                       if t \<noteq> [] then Some (TextDelta t (Some strm) (Some tag)) else fallback))"

text \<open>\<open>a || b || c\<close> on trimmed strings: the first that is not empty, else the last.\<close>

fun firstNonEmpty :: "string list \<Rightarrow> string" where
  "firstNonEmpty [] = []"
| "firstNonEmpty [a] = a"
| "firstNonEmpty (a # b # bs) = (if a \<noteq> [] then a else firstNonEmpty (b # bs))"

definition resolveStatusTextForTag :: "string \<Rightarrow> (string \<times> json) list \<Rightarrow> string option" where
  "resolveStatusTextForTag tag update =
     (if tag = ''available_commands_update'' then
        (let n = arrayLength (getProp update ''availableCommands'')
         in Some (if n > 0 then ''available commands updated ('' @ show_nat n @ '')''
                  else ''available commands updated''))
      else if tag = ''current_mode_update'' then
        (let mode = firstNonEmpty
               [asTrimmedString (getProp update ''currentModeId''),
                asTrimmedString (getProp update ''modeId''),
                asTrimmedString (getProp update ''mode'')]
         in Some (if mode \<noteq> [] then ''mode updated: '' @ mode else ''mode updated''))
      else if tag = ''config_option_update'' then
        (let i = firstNonEmpty
               [asTrimmedString (getProp update ''id''),
                asTrimmedString (getProp update ''configOptionId'')];
             v = firstNonEmpty
               [asTrimmedString (getProp update ''currentValue''),
                asTrimmedString (getProp update ''value''),
                asTrimmedString (getProp update ''optionValue'')]
         in if i \<noteq> [] \<and> v \<noteq> [] then Some (''config updated: '' @ i @ ''='' @ v)
            else if i \<noteq> [] then Some (''config updated: '' @ i)
            else Some ''config updated'')
      else if tag = ''session_info_update'' then
        Some (firstNonEmpty
               [asTrimmedString (getProp update ''summary''),
                asTrimmedString (getProp update ''message''),
                ''session updated''])
      else if tag = ''plan'' then
        (let first = firstRecord (arrayEntries (getProp update ''entries''));
             content = asTrimmedString (optProp first ''content'')
         in if content = [] then Some ''plan updated''
            else
              let status = asTrimmedString (optProp first ''status'')
              in Some (if status \<noteq> [] then ''plan: ['' @ status @ ''] '' @ content
                       else ''plan: '' @ content))
      else None)"

definition dispatchUpdate_gated ::
  "projector_env \<Rightarrow> (string \<times> json) list \<Rightarrow> AcpRuntimeEvent option" where
  "dispatchUpdate_gated env update =
     (case asOptionalString (getProp update ''sessionUpdate'') of
        None \<Rightarrow> None
      | Some tag \<Rightarrow>
          if tag = ''agent_message_chunk'' then resolveTextChunk update Output tag
          else if tag = ''agent_thought_chunk'' then resolveTextChunk update Thought tag
          else if tag = ''tool_call'' \<or> tag = ''tool_call_update'' then
            (let title = (if asTrimmedString (getProp update ''title'') \<noteq> []
                          then asTrimmedString (getProp update ''title'') else ''tool call'');
                 status = asTrimmedString (getProp update ''status'');
                 toolCallId = asOptionalString (getProp update ''toolCallId'')
             in Some (ToolCall (if status \<noteq> [] then title @ '' ('' @ status @ '')'' else title)
                        (Some tag) toolCallId (if status \<noteq> [] then Some status else None)
                        (Some title)))
          else if tag = ''usage_update'' then
            (let usedv = asOptionalFiniteNumber (getProp update ''used'');
                 sizev = asOptionalFiniteNumber (getProp update ''size'')
             in Some (Status
                  (case (usedv, sizev) of
                     (Some u, Some z) \<Rightarrow>
                       ''usage updated: '' @ numberToString env u @ ''/'' @ numberToString env z
                   | _ \<Rightarrow> ''usage updated'')
                  (Some tag) usedv sizev))
          else if tag \<in> {''available_commands_update'', ''current_mode_update'',
                          ''config_option_update'', ''session_info_update'', ''plan''} then
            (case resolveStatusTextForTag tag update of
               None \<Rightarrow> None
             | Some t \<Rightarrow> if t = [] then None else Some (Status t (Some tag) None None))
          else None)"

definition parseSessionUpdateEvent_gated ::
  "projector_env \<Rightarrow> (string \<times> json) list \<Rightarrow> AcpRuntimeEvent option" where
  "parseSessionUpdateEvent_gated env msg =
     (if asTrimmedString (getProp msg ''method'') \<noteq> ''session/update'' then None
      else case asRecord (getProp msg ''params'') of
        None \<Rightarrow> None
      | Some params \<Rightarrow>
          (case asRecord (getProp params ''update'') of
             None \<Rightarrow> None
           | Some update \<Rightarrow> dispatchUpdate_gated env update))"

text \<open>\<open>consumePromptResponse\<close>: whether the response is honoured, and the id set after.\<close>

definition consumePromptResponse ::
  "projector_env \<Rightarrow> string set \<Rightarrow> (string \<times> json) list \<Rightarrow> bool \<times> string set" where
  "consumePromptResponse env promptRequestIds msg =
     (case normalizeJsonRpcId env (getProp msg ''id'') of
        None \<Rightarrow> (False, promptRequestIds)
      | Some i \<Rightarrow>
          if i = [] then (False, promptRequestIds)
          else if i \<notin> promptRequestIds then (False, promptRequestIds)
          else (True, promptRequestIds - {i}))"

definition ingestMessage_gated ::
  "projector_env \<Rightarrow> string set \<Rightarrow> (string \<times> json) list \<Rightarrow> AcpRuntimeEvent option \<times> string set" where
  "ingestMessage_gated env promptRequestIds parsed =
     (if asTrimmedString (getProp parsed ''method'') = ''session/prompt'' then
        (case normalizeJsonRpcId env (getProp parsed ''id'') of
           None \<Rightarrow> (None, promptRequestIds)
         | Some i \<Rightarrow> if i = [] then (None, promptRequestIds)
                     else (None, insert i promptRequestIds))
      else case parseSessionUpdateEvent_gated env parsed of
        Some updateEvent \<Rightarrow>
          (if promptRequestIds \<noteq> {} then Some updateEvent else None, promptRequestIds)
      | None \<Rightarrow>
          if hasOwn parsed ''error'' then
            (case consumePromptResponse env promptRequestIds parsed of
               (False, ids) \<Rightarrow> (None, ids)
             | (True, ids) \<Rightarrow> (Some (errorEvent env parsed), ids))
          else
            (case parsePromptStopReason parsed of
               None \<Rightarrow> (None, promptRequestIds)
             | Some stopReason \<Rightarrow>
                 (case consumePromptResponse env promptRequestIds parsed of
                    (False, ids) \<Rightarrow> (None, ids)
                  | (True, ids) \<Rightarrow> (Some (Done stopReason), ids))))"

definition ingestLine_gated ::
  "projector_env \<Rightarrow> string set \<Rightarrow> string \<Rightarrow> AcpRuntimeEvent option \<times> string set" where
  "ingestLine_gated env promptRequestIds line =
     (let trimmed = trim line in
      if trimmed = [] then (None, promptRequestIds)
      else case JSON_parse env trimmed of
        None \<Rightarrow> (Some (Status trimmed None None None), promptRequestIds)
      | Some parsed \<Rightarrow>
          (case parsed of
             JObj msg \<Rightarrow>
               if \<not> isAcpJsonRpcMessage env msg then (None, promptRequestIds)
               else ingestMessage_gated env promptRequestIds msg
           | _ \<Rightarrow> (None, promptRequestIds)))"

text \<open>Feeding lines one after another to this revision.\<close>

fun ingestLines_gated ::
  "projector_env \<Rightarrow> string set \<Rightarrow> string list \<Rightarrow> AcpRuntimeEvent option list \<times> string set" where
  "ingestLines_gated env ids [] = ([], ids)"
| "ingestLines_gated env ids (l # ls) =
     (let (e, ids1) = ingestLine_gated env ids l;
          (es, ids2) = ingestLines_gated env ids1 ls
      in (e # es, ids2))"

section \<open>Theorems\<close>

subsection \<open>Guards\<close>

lemma pruneMapToMaxSize_drop:
  "0 \<le> n \<Longrightarrow> pruneMapToMaxSize m n = drop (length m - nat n) m"
  by (induction m) (auto simp: Suc_diff_le)

lemma pruneMapToMaxSize_length:
  "0 \<le> n \<Longrightarrow> int (length (pruneMapToMaxSize m n)) \<le> n"
  by (induction m) auto

lemma map_delete_keys: "k \<notin> fst ` set (map_delete m k)"
  by (auto simp: map_delete_def)

lemma distinct_map_delete: "distinct (map fst m) \<Longrightarrow> distinct (map fst (map_delete m k))"
  by (simp add: map_delete_def distinct_map_filter)

lemma distinct_touch: "distinct (map fst m) \<Longrightarrow> distinct (map fst (touch m k v))"
  using map_delete_keys[of k m] by (simp add: touch_def distinct_map_delete)

lemma distinct_pruneMapToMaxSize:
  "distinct (map fst m) \<Longrightarrow> distinct (map fst (pruneMapToMaxSize m n))"
  by (induction m) auto

lemma prune_touch_get:
  assumes "1 \<le> n"
  shows "map_get (pruneMapToMaxSize (touch m k v) n) k = Some v"
proof -
  let ?d = "map_delete m k"
  have n0: "0 \<le> n" using assms by simp
  have le: "length (touch m k v) - nat n \<le> length ?d"
    using assms by (simp add: touch_def)
  have "pruneMapToMaxSize (touch m k v) n = drop (length (touch m k v) - nat n) ?d @ [(k, v)]"
    using le by (simp add: pruneMapToMaxSize_drop[OF n0] touch_def)
  moreover have "k \<notin> fst ` set (drop (length (touch m k v) - nat n) ?d)"
    using map_delete_keys[of k m] by (auto dest: in_set_dropD)
  ultimately show ?thesis
    by (simp add: map_get_def map_add_def map_of_eq_None_iff[symmetric] del: map_of_eq_None_iff split: option.splits)
qed

lemma map_of_filter_distinct:
  "distinct (map fst m) \<Longrightarrow> map_of m k = Some v \<Longrightarrow>
   map_of (filter P m) k = (if P (k, v) then Some v else None)"
  by (induction m) (auto simp: map_of_eq_None_iff image_iff)

lemma map_of_filter_None:
  "map_of m k = None \<Longrightarrow> map_of (filter P m) k = None"
  by (auto simp: map_of_eq_None_iff)

lemma live_window_maybe_prune:
  assumes "distinct (map fst (state L))"
  shows "live_window (fw_maybe_prune L t) k t = live_window L k t"
proof (cases "map_of (state L) k")
  case None
  then show ?thesis
    by (simp add: live_window_def fw_maybe_prune_def fw_prune_def map_get_def map_of_filter_None)
next
  case (Some e)
  then show ?thesis
    using map_of_filter_distinct[OF assms Some]
    by (simp add: live_window_def fw_maybe_prune_def fw_prune_def map_get_def)
qed

lemma maybe_prune_cfg:
  "maxTrackedKeys (fw_maybe_prune L t) = maxTrackedKeys L"
  "windowMs (fw_maybe_prune L t) = windowMs L"
  "maxRequests (fw_maybe_prune L t) = maxRequests L"
  by (simp_all add: fw_maybe_prune_def)

lemma maybe_prune_distinct:
  "distinct (map fst (state L)) \<Longrightarrow> distinct (map fst (state (fw_maybe_prune L t)))"
  by (simp add: fw_maybe_prune_def fw_prune_def distinct_map_filter)

lemma isRateLimited_fresh:
  assumes ok: "limiter_ok L" and k: "key \<noteq> []" and lw: "live_window L key t = None"
  shows "fst (isRateLimited L key t) = False"
    and "map_get (state (snd (isRateLimited L key t))) key = Some \<lparr> fw_count = 1, windowStartMs = t \<rparr>"
proof -
  have d: "distinct (map fst (state L))" and n: "1 \<le> maxTrackedKeys L"
    using ok by (simp_all add: limiter_ok_def)
  have lw1: "live_window (fw_maybe_prune L t) key t = None"
    using lw live_window_maybe_prune[OF d] by simp
  show "fst (isRateLimited L key t) = False"
    using k lw1 by (auto simp: isRateLimited_def Let_def live_window_def maybe_prune_cfg split: option.splits if_splits)
  show "map_get (state (snd (isRateLimited L key t))) key = Some \<lparr> fw_count = 1, windowStartMs = t \<rparr>"
    using k lw1 n by (auto simp: isRateLimited_def Let_def live_window_def maybe_prune_cfg prune_touch_get split: option.splits if_splits)
qed

lemma isRateLimited_live:
  assumes ok: "limiter_ok L" and k: "key \<noteq> []" and lw: "live_window L key t = Some e"
  shows "fst (isRateLimited L key t) = (fw_count e + 1 > maxRequests L)"
    and "map_get (state (snd (isRateLimited L key t))) key =
           Some \<lparr> fw_count = fw_count e + 1, windowStartMs = windowStartMs e \<rparr>"
proof -
  have d: "distinct (map fst (state L))" and n: "1 \<le> maxTrackedKeys L"
    using ok by (simp_all add: limiter_ok_def)
  have lw1: "live_window (fw_maybe_prune L t) key t = Some e"
    using lw live_window_maybe_prune[OF d] by simp
  show "fst (isRateLimited L key t) = (fw_count e + 1 > maxRequests L)"
    using k lw1 by (auto simp: isRateLimited_def Let_def live_window_def maybe_prune_cfg split: option.splits if_splits)
  show "map_get (state (snd (isRateLimited L key t))) key =
           Some \<lparr> fw_count = fw_count e + 1, windowStartMs = windowStartMs e \<rparr>"
    using k lw1 n by (auto simp: isRateLimited_def Let_def live_window_def maybe_prune_cfg prune_touch_get split: option.splits if_splits)
qed

lemma isRateLimited_cfg:
  "maxTrackedKeys (snd (isRateLimited L k t)) = maxTrackedKeys L"
  "windowMs (snd (isRateLimited L k t)) = windowMs L"
  "maxRequests (snd (isRateLimited L k t)) = maxRequests L"
  by (auto simp: isRateLimited_def Let_def maybe_prune_cfg split: option.splits)

lemma isRateLimited_ok:
  assumes "limiter_ok L" shows "limiter_ok (snd (isRateLimited L k t))"
  using assms maybe_prune_distinct[of L t]
  by (auto simp: limiter_ok_def isRateLimited_def Let_def maybe_prune_cfg
        distinct_pruneMapToMaxSize distinct_touch split: option.splits)

lemma create_ok: "limiter_ok (createFixedWindowRateLimiter opts)"
  by (simp add: limiter_ok_def createFixedWindowRateLimiter_def Let_def)


lemma fw_calls_in_window:
  assumes "limiter_ok L" "key \<noteq> []"
    and "map_get (state L) key = Some \<lparr> fw_count = c, windowStartMs = t0 \<rparr>"
    and "\<forall>t \<in> set ts. t - t0 < windowMs L"
  shows "fst (fw_calls L key ts) = map (\<lambda>i. c + int i > maxRequests L) [1..<length ts + 1]"
  using assms
proof (induction ts arbitrary: L c)
  case Nil
  then show ?case by simp
next
  case (Cons t ts)
  let ?e = "\<lparr> fw_count = c, windowStartMs = t0 \<rparr>"
  let ?L1 = "snd (isRateLimited L key t)"
  have lw: "live_window L key t = Some ?e"
    using Cons.prems by (simp add: live_window_def)
  have r: "fst (isRateLimited L key t) = (c + 1 > maxRequests L)"
    using isRateLimited_live(1)[OF Cons.prems(1,2) lw] by simp
  have st: "map_get (state ?L1) key = Some \<lparr> fw_count = c + 1, windowStartMs = t0 \<rparr>"
    using isRateLimited_live(2)[OF Cons.prems(1,2) lw] by simp
  have ih: "fst (fw_calls ?L1 key ts) = map (\<lambda>i. (c + 1) + int i > maxRequests ?L1) [1..<length ts + 1]"
    using Cons.IH[OF isRateLimited_ok[OF Cons.prems(1)] Cons.prems(2) st] Cons.prems(4)
    by (simp add: isRateLimited_cfg)
  have shift: "map (\<lambda>i. c + int i > maxRequests L) [1..<length (t # ts) + 1]
      = (c + 1 > maxRequests L) # map (\<lambda>i. (c + 1) + int i > maxRequests L) [1..<length ts + 1]"
  proof -
    have "[1..<length (t # ts) + 1] = 1 # map Suc [1..<length ts + 1]"
      by (simp add: upt_conv_Cons map_Suc_upt del: upt_Suc)
    then show ?thesis by (simp add: o_def add.commute add.left_commute del: upt_Suc)
  qed
  show ?case
    using r ih shift by (simp add: case_prod_beta isRateLimited_cfg del: upt_Suc)
qed

lemma fw_run_ok: "limiter_ok L \<Longrightarrow> limiter_ok (fw_run L cs)"
  by (induction cs arbitrary: L) (auto simp: isRateLimited_ok)

lemma fw_run_cfg: "maxTrackedKeys (fw_run L cs) = maxTrackedKeys L"
  by (induction cs arbitrary: L) (auto simp: isRateLimited_cfg)

lemma isRateLimited_size:
  assumes "0 \<le> maxTrackedKeys L" "int (fw_size L) \<le> maxTrackedKeys L"
  shows "int (fw_size (snd (isRateLimited L k t))) \<le> maxTrackedKeys L"
  using assms pruneMapToMaxSize_length[of "maxTrackedKeys L"]
  by (auto simp: isRateLimited_def Let_def fw_size_def map_size_def maybe_prune_cfg split: option.splits)

lemma fw_run_size:
  assumes "0 \<le> maxTrackedKeys L" "int (fw_size L) \<le> maxTrackedKeys L"
  shows "int (fw_size (fw_run L cs)) \<le> maxTrackedKeys L"
  using assms
proof (induction cs arbitrary: L)
  case Nil
  then show ?case by simp
next
  case (Cons c cs)
  have "int (fw_size (snd (isRateLimited L (fst c) (snd c)))) \<le> maxTrackedKeys L"
    using isRateLimited_size[OF Cons.prems] .
  with Cons.IH[of "snd (isRateLimited L (fst c) (snd c))"] Cons.prems
  show ?case by (simp add: isRateLimited_cfg)
qed

lemma bc_maybe_prune_cfg: "bc_maxTrackedKeys (bc_maybe_prune C t) = bc_maxTrackedKeys C"
  by (simp add: bc_maybe_prune_def)

lemma increment_cfg: "bc_maxTrackedKeys (snd (increment C k t)) = bc_maxTrackedKeys C"
  by (simp add: increment_def Let_def bc_maybe_prune_cfg)

lemma increment_size:
  assumes "0 \<le> bc_maxTrackedKeys C" "int (bc_size C) \<le> bc_maxTrackedKeys C"
  shows "int (bc_size (snd (increment C k t))) \<le> bc_maxTrackedKeys C"
  using assms pruneMapToMaxSize_length[of "bc_maxTrackedKeys C"]
  by (auto simp: increment_def Let_def bc_size_def map_size_def bc_maybe_prune_cfg)

lemma bc_run_size:
  assumes "0 \<le> bc_maxTrackedKeys C" "int (bc_size C) \<le> bc_maxTrackedKeys C"
  shows "int (bc_size (bc_run C cs)) \<le> bc_maxTrackedKeys C"
  using assms
proof (induction cs arbitrary: C)
  case Nil
  then show ?case by simp
next
  case (Cons c cs)
  have "int (bc_size (snd (increment C (fst c) (snd c)))) \<le> bc_maxTrackedKeys C"
    using increment_size[OF Cons.prems] .
  with Cons.IH[of "snd (increment C (fst c) (snd c))"] Cons.prems
  show ?case by (simp add: increment_cfg)
qed

text \<open>
  Claim C4 (fixed-window rate limiter), for a non-empty key. A call that finds no live
  window for the key (none stored, or the stored one is \<open>windowMs\<close> old or older)
  starts a window at \<open>nowMs\<close> with count 1 and returns false. A call that finds a live
  window stores count + 1 under the same window start and returns true exactly when
  the new count exceeds \<open>maxRequests\<close>. Hence, for successive calls on one limiter that
  all fall inside the window opened by the first, the i-th call returns true exactly
  when \<open>i > maxRequests\<close>; and a call made \<open>windowMs\<close> or more after the window start
  returns false. The empty key is excluded: \<open>isRateLimited\<close> returns false for it
  before touching any state.
\<close>

theorem isRateLimited_fixed_window:
  assumes "limiter_ok L" and "key \<noteq> []"
  shows "(live_window L key nowMs = None \<longrightarrow>
            fst (isRateLimited L key nowMs) = False \<and>
            map_get (state (snd (isRateLimited L key nowMs))) key =
              Some \<lparr> fw_count = 1, windowStartMs = nowMs \<rparr>) \<and>
         (\<forall>e. live_window L key nowMs = Some e \<longrightarrow>
            fst (isRateLimited L key nowMs) = (fw_count e + 1 > maxRequests L) \<and>
            map_get (state (snd (isRateLimited L key nowMs))) key =
              Some \<lparr> fw_count = fw_count e + 1, windowStartMs = windowStartMs e \<rparr>) \<and>
         (live_window L key nowMs = None \<and> (\<forall>t \<in> set ts. t - nowMs < windowMs L) \<longrightarrow>
            fst (fw_calls L key (nowMs # ts)) =
              map (\<lambda>i. int i > maxRequests L) [1..<length ts + 2]) \<and>
         (\<forall>e. map_get (state L) key = Some e \<and> nowMs - windowStartMs e \<ge> windowMs L \<longrightarrow>
            fst (isRateLimited L key nowMs) = False)"
proof -
  have p1: "fst (isRateLimited L key nowMs) = False \<and>
            map_get (state (snd (isRateLimited L key nowMs))) key =
              Some \<lparr> fw_count = 1, windowStartMs = nowMs \<rparr>"
    if "live_window L key nowMs = None"
    using isRateLimited_fresh[OF assms that] by simp
  have p2: "fst (isRateLimited L key nowMs) = (fw_count e + 1 > maxRequests L) \<and>
            map_get (state (snd (isRateLimited L key nowMs))) key =
              Some \<lparr> fw_count = fw_count e + 1, windowStartMs = windowStartMs e \<rparr>"
    if "live_window L key nowMs = Some e" for e
    using isRateLimited_live[OF assms that] by simp
  have p3: "fst (fw_calls L key (nowMs # ts)) = map (\<lambda>i. int i > maxRequests L) [1..<length ts + 2]"
    if lw: "live_window L key nowMs = None" and win: "\<forall>t \<in> set ts. t - nowMs < windowMs L"
  proof -
    let ?L1 = "snd (isRateLimited L key nowMs)"
    have tl: "fst (fw_calls ?L1 key ts) = map (\<lambda>i. 1 + int i > maxRequests ?L1) [1..<length ts + 1]"
      using fw_calls_in_window[OF isRateLimited_ok[OF assms(1)] assms(2), where c=1 and ?t0.0=nowMs and ts=ts]
        p1[OF lw] win
      by (simp add: isRateLimited_cfg)
    have up: "map (\<lambda>i. int i > maxRequests L) [1..<length ts + 2] =
        (1 > maxRequests L) # map (\<lambda>i. 1 + int i > maxRequests L) [1..<length ts + 1]"
    proof -
      have "[1..<length ts + 2] = 1 # map Suc [1..<length ts + 1]"
        by (simp add: upt_conv_Cons map_Suc_upt del: upt_Suc)
      then show ?thesis by (simp add: o_def del: upt_Suc)
    qed
    have mr: "\<not> (1 > maxRequests L)" using assms(1) by (simp add: limiter_ok_def)
    have "fst (fw_calls L key (nowMs # ts)) =
        fst (isRateLimited L key nowMs) # fst (fw_calls ?L1 key ts)"
      by (simp add: case_prod_beta)
    then show ?thesis
      using tl p1[OF lw] mr unfolding up by (simp add: isRateLimited_cfg del: upt_Suc)
  qed
  have p4: "fst (isRateLimited L key nowMs) = False"
    if "map_get (state L) key = Some e" "nowMs - windowStartMs e \<ge> windowMs L" for e
    using p1 that by (simp add: live_window_def)
  show ?thesis using p1 p2 p3 p4 by blast
qed


lemma test_limiter_simps:
  "test_limiter = \<lparr> windowMs = 10, maxRequests = 1, maxTrackedKeys = 100,
     pruneIntervalMs = 10, state = [], lastPruneMs = 0 \<rparr>"
  by (simp add: test_limiter_def createFixedWindowRateLimiter_def)

theorem isRateLimited_fixed_window_witness:
  "limiter_ok test_limiter \<and> ''k'' \<noteq> [] \<and>
   live_window test_limiter ''k'' 100 = None \<and>
   (101::int) - 100 < windowMs test_limiter \<and>
   fst (isRateLimited test_limiter ''k'' 100) = False \<and>
   fst (fw_calls test_limiter ''k'' [100, 101]) = [False, True] \<and>
   live_window (snd (isRateLimited test_limiter ''k'' 100)) ''k'' 101 =
     Some \<lparr> fw_count = 1, windowStartMs = 100 \<rparr> \<and>
   fst (isRateLimited (snd (isRateLimited test_limiter ''k'' 100)) ''k'' 101) = True \<and>
   fst (isRateLimited (snd (fw_calls test_limiter ''k'' [100, 101])) ''k'' 111) = False"
proof -
  have ok: "limiter_ok test_limiter"
    by (simp add: test_limiter_simps limiter_ok_def)
  have k: "''k'' \<noteq> []" by simp
  have lw: "live_window test_limiter ''k'' 100 = None"
    by (simp add: test_limiter_simps live_window_def map_get_def)
  have win: "\<forall>t \<in> set [101::int]. t - 100 < windowMs test_limiter"
    by (simp add: test_limiter_simps)
  have mr: "maxRequests test_limiter = 1" by (simp add: test_limiter_simps)
  note T = isRateLimited_fixed_window[OF ok k, of 100 "[101]"]
  have r1: "fst (isRateLimited test_limiter ''k'' 100) = False"
    and s1: "map_get (state (snd (isRateLimited test_limiter ''k'' 100))) ''k'' =
              Some \<lparr> fw_count = 1, windowStartMs = 100 \<rparr>"
    using T lw by simp_all
  have seq: "fst (fw_calls test_limiter ''k'' [100, 101]) = [False, True]"
    using T lw win mr by (simp add: upt_conv_Cons del: upt_Suc)
  let ?L1 = "snd (isRateLimited test_limiter ''k'' 100)"
  have ok1: "limiter_ok ?L1" using ok by (rule isRateLimited_ok)
  have lw1: "live_window ?L1 ''k'' 101 = Some \<lparr> fw_count = 1, windowStartMs = 100 \<rparr>"
    using s1 by (simp add: live_window_def isRateLimited_cfg test_limiter_simps)
  have r2: "fst (isRateLimited ?L1 ''k'' 101) = True"
    using isRateLimited_fixed_window[OF ok1 k, of 101 "[]"] lw1
    by (simp add: isRateLimited_cfg mr)
  let ?L2 = "snd (fw_calls test_limiter ''k'' [100, 101])"
  have L2: "?L2 = snd (isRateLimited ?L1 ''k'' 101)"
    by (simp add: case_prod_beta)
  have ok2: "limiter_ok ?L2" unfolding L2 using ok1 by (rule isRateLimited_ok)
  have s2: "map_get (state ?L2) ''k'' = Some \<lparr> fw_count = 2, windowStartMs = 100 \<rparr>"
    unfolding L2 using isRateLimited_fixed_window[OF ok1 k, of 101 "[]"] lw1 by simp
  have w2: "windowMs ?L2 = 10"
    unfolding L2 by (simp add: isRateLimited_cfg mr) (simp add: test_limiter_simps)
  have "\<forall>e. map_get (state ?L2) ''k'' = Some e \<and> 111 - windowStartMs e \<ge> windowMs ?L2 \<longrightarrow>
            fst (isRateLimited ?L2 ''k'' 111) = False"
    using isRateLimited_fixed_window[OF ok2 k, of 111 "[]"] by blast
  then have r3: "fst (isRateLimited ?L2 ''k'' 111) = False"
    using s2 w2 by simp
  have win': "(101::int) - 100 < windowMs test_limiter" using win by simp
  show ?thesis using ok k lw win' r1 seq lw1 r2 r3 by blast
qed

text \<open>
  The empty key never starts a window and is never limited: with \<open>maxRequests = 1\<close>,
  two calls one millisecond apart both return false and the limiter stays empty.
\<close>

theorem isRateLimited_empty_key_counterexample:
  "fst (fw_calls test_limiter [] [100, 101]) = [False, False] \<and>
   map_get (state (snd (isRateLimited test_limiter [] 100))) [] = None \<and>
   fw_size (snd (fw_calls test_limiter [] [100, 101])) = 0"
  by (simp add: isRateLimited_def test_limiter_simps map_get_def fw_size_def map_size_def)


lemma pruneMapToMaxSize_drop_any:
  "pruneMapToMaxSize m n = drop (length m - nat n) m"
proof (induction m)
  case Nil
  then show ?case by simp
next
  case (Cons e m)
  show ?case
  proof (cases "int (length (e # m)) > n")
    case True
    then have "length (e # m) - nat n = Suc (length m - nat n)" by (simp add: Suc_diff_le)
    with True Cons show ?thesis by simp
  next
    case False
    then have "length (e # m) - nat n = 0" by simp
    with False show ?thesis by simp
  qed
qed

lemma touch_keys: "map fst (touch m k v) = filter (\<lambda>x. x \<noteq> k) (map fst m) @ [k]"
  by (simp add: touch_def map_delete_def filter_map o_def)

lemma prune_touch_keys:
  "map fst (pruneMapToMaxSize (touch m k v) n) =
     (let ks = filter (\<lambda>x. x \<noteq> k) (map fst m) @ [k] in drop (length ks - nat n) ks)"
proof -
  have "length (touch m k v) = length (filter (\<lambda>x. x \<noteq> k) (map fst m) @ [k])"
    using arg_cong[OF touch_keys[of m k v], of length] by simp
  then show ?thesis
    by (simp add: pruneMapToMaxSize_drop_any drop_map[symmetric] touch_keys Let_def
        del: drop_map)
qed

text \<open>
  Claim C8 (bounded key maps). Starting from a freshly created guard, after any
  sequence of \<open>increment\<close> calls the counter's \<open>size()\<close> is at most
  \<open>max(1, maxTrackedKeys)\<close> of the configured \<open>maxTrackedKeys\<close>, and after any sequence
  of \<open>isRateLimited\<close> calls so is the limiter's. In both guards a call with a
  non-empty key moves that key to the most recent position of the map left by the
  time sweep, and then the keys in excess of the cap are evicted from the least
  recently touched end: the keys after the call are the last \<open>maxTrackedKeys\<close> of the
  swept keys without the key, followed by the key. A call with the empty key changes
  nothing.
\<close>

theorem bounded_guards_recency:
  "int (bc_size (bc_run (createBoundedCounter copts) calls)) \<le>
     max 1 (copt_maxTrackedKeys copts) \<and>
   int (fw_size (fw_run (createFixedWindowRateLimiter opts) lcalls)) \<le>
     max 1 (opt_maxTrackedKeys opts) \<and>
   (key \<noteq> [] \<longrightarrow>
      map fst (counters (snd (increment C key nowMs))) =
        (let ks = filter (\<lambda>x. x \<noteq> key) (map fst (counters (bc_maybe_prune C nowMs))) @ [key]
         in drop (length ks - nat (bc_maxTrackedKeys C)) ks)) \<and>
   (key \<noteq> [] \<longrightarrow>
      map fst (state (snd (isRateLimited L key nowMs))) =
        (let ks = filter (\<lambda>x. x \<noteq> key) (map fst (state (fw_maybe_prune L nowMs))) @ [key]
         in drop (length ks - nat (maxTrackedKeys L)) ks)) \<and>
   snd (increment C [] nowMs) = C \<and>
   snd (isRateLimited L [] nowMs) = L"
proof -
  have a: "int (bc_size (bc_run (createBoundedCounter copts) calls)) \<le>
     bc_maxTrackedKeys (createBoundedCounter copts)"
    by (rule bc_run_size) (simp_all add: createBoundedCounter_def Let_def bc_size_def map_size_def)
  have a': "bc_maxTrackedKeys (createBoundedCounter copts) = max 1 (copt_maxTrackedKeys copts)"
    by (simp add: createBoundedCounter_def Let_def)
  have b: "int (fw_size (fw_run (createFixedWindowRateLimiter opts) lcalls)) \<le>
     maxTrackedKeys (createFixedWindowRateLimiter opts)"
    by (rule fw_run_size) (simp_all add: createFixedWindowRateLimiter_def Let_def fw_size_def map_size_def)
  have b': "maxTrackedKeys (createFixedWindowRateLimiter opts) = max 1 (opt_maxTrackedKeys opts)"
    by (simp add: createFixedWindowRateLimiter_def Let_def)
  have c: "map fst (counters (snd (increment C key nowMs))) =
        (let ks = filter (\<lambda>x. x \<noteq> key) (map fst (counters (bc_maybe_prune C nowMs))) @ [key]
         in drop (length ks - nat (bc_maxTrackedKeys C)) ks)"
    if "key \<noteq> []"
    using that
    by (simp add: increment_def Let_def bc_maybe_prune_cfg
        prune_touch_keys[unfolded Let_def])
  have d: "map fst (state (snd (isRateLimited L key nowMs))) =
        (let ks = filter (\<lambda>x. x \<noteq> key) (map fst (state (fw_maybe_prune L nowMs))) @ [key]
         in drop (length ks - nat (maxTrackedKeys L)) ks)"
    if "key \<noteq> []"
    using that
    by (simp add: isRateLimited_def Let_def maybe_prune_cfg
        prune_touch_keys[unfolded Let_def] split: option.splits)
  have e: "snd (increment C [] nowMs) = C" by (simp add: increment_def)
  have f: "snd (isRateLimited L [] nowMs) = L" by (simp add: isRateLimited_def)
  show ?thesis
    using a[unfolded a'] b[unfolded b'] c d e f by simp
qed

lemma small_limiter_simps:
  "small_limiter = \<lparr> windowMs = 10, maxRequests = 1, maxTrackedKeys = 2,
     pruneIntervalMs = 10, state = [], lastPruneMs = 0 \<rparr>"
  by (simp add: small_limiter_def createFixedWindowRateLimiter_def)

lemma test_counter_simps:
  "test_counter = \<lparr> bc_maxTrackedKeys = 2, ttlMs = 0, bc_pruneIntervalMs = 60000,
     counters = [(''a'', \<lparr> c_count = 1, updatedAtMs = 1000 \<rparr>),
                 (''b'', \<lparr> c_count = 1, updatedAtMs = 1001 \<rparr>)],
     bc_lastPruneMs = 0 \<rparr>"
  by (simp add: test_counter_def createBoundedCounter_def increment_def bc_maybe_prune_def
      map_get_def touch_def map_delete_def)

lemma counter_aba:
  "snd (increment test_counter ''a'' 1002) =
     \<lparr> bc_maxTrackedKeys = 2, ttlMs = 0, bc_pruneIntervalMs = 60000,
       counters = [(''b'', \<lparr> c_count = 1, updatedAtMs = 1001 \<rparr>),
                   (''a'', \<lparr> c_count = 2, updatedAtMs = 1002 \<rparr>)],
       bc_lastPruneMs = 0 \<rparr>"
  by (simp add: test_counter_simps increment_def bc_maybe_prune_def isExpired_def
      map_get_def touch_def map_delete_def)

lemma limiter_aba:
  "fw_run small_limiter [(''a'', 100), (''b'', 101), (''a'', 102)] =
     \<lparr> windowMs = 10, maxRequests = 1, maxTrackedKeys = 2, pruneIntervalMs = 10,
       state = [(''b'', \<lparr> fw_count = 1, windowStartMs = 101 \<rparr>),
                (''a'', \<lparr> fw_count = 2, windowStartMs = 100 \<rparr>)],
       lastPruneMs = 100 \<rparr>"
  by (simp add: small_limiter_simps isRateLimited_def fw_maybe_prune_def fw_prune_def
      map_get_def touch_def map_delete_def Let_def)

theorem bounded_guards_recency_witness:
  "''a'' \<noteq> [] \<and> ''c'' \<noteq> [] \<and>
   map fst (counters test_counter) = [''a'', ''b''] \<and>
   map fst (counters (snd (increment test_counter ''a'' 1002))) = [''b'', ''a''] \<and>
   map fst (counters (bc_run test_counter [(''a'', 1002), (''c'', 1003)])) = [''a'', ''c''] \<and>
   map fst (state (fw_run small_limiter [(''a'', 100), (''b'', 101), (''a'', 102)])) =
     [''b'', ''a''] \<and>
   map fst (state (fw_run small_limiter
      [(''a'', 100), (''b'', 101), (''a'', 102), (''c'', 103)])) = [''a'', ''c''] \<and>
   bc_size (bc_run test_counter [(''a'', 1002), (''c'', 1003)]) = 2"
proof -
  have k0: "map fst (counters test_counter) = [''a'', ''b'']"
    by (simp add: test_counter_simps)
  have k1: "map fst (counters (snd (increment test_counter ''a'' 1002))) = [''b'', ''a'']"
    using bounded_guards_recency[where key="''a''" and C=test_counter and nowMs=1002,
        THEN conjunct2, THEN conjunct2, THEN conjunct1]
    by (simp add: Let_def test_counter_simps bc_maybe_prune_def)
  have k2: "map fst (counters (bc_run test_counter [(''a'', 1002), (''c'', 1003)])) = [''a'', ''c'']"
    using bounded_guards_recency[where key="''c''"
        and C="snd (increment test_counter ''a'' 1002)" and nowMs=1003,
        THEN conjunct2, THEN conjunct2, THEN conjunct1]
    by (simp add: Let_def counter_aba bc_maybe_prune_def)
  have l1: "map fst (state (fw_run small_limiter [(''a'', 100), (''b'', 101), (''a'', 102)])) =
     [''b'', ''a'']"
    by (simp only: limiter_aba) simp
  have split: "fw_run small_limiter [(''a'', 100), (''b'', 101), (''a'', 102), (''c'', 103)] =
      snd (isRateLimited (fw_run small_limiter [(''a'', 100), (''b'', 101), (''a'', 102)])
             ''c'' 103)"
    by simp
  have l2: "map fst (state (fw_run small_limiter
      [(''a'', 100), (''b'', 101), (''a'', 102), (''c'', 103)])) = [''a'', ''c'']"
    unfolding split
    using bounded_guards_recency[where key="''c''"
        and L="fw_run small_limiter [(''a'', 100), (''b'', 101), (''a'', 102)]" and nowMs=103,
        THEN conjunct2, THEN conjunct2, THEN conjunct2, THEN conjunct1, unfolded limiter_aba]
    unfolding limiter_aba
    by (simp add: Let_def fw_maybe_prune_def)
  have "length (map fst (counters (bc_run test_counter [(''a'', 1002), (''c'', 1003)]))) = 2"
    unfolding k2 by simp
  then have sz: "bc_size (bc_run test_counter [(''a'', 1002), (''c'', 1003)]) = 2"
    by (simp add: bc_size_def map_size_def)
  show ?thesis using k0 k1 k2 l1 l2 sz by simp
qed

text \<open>
  A counter configured with \<open>maxTrackedKeys = 0\<close> holds one key after one
  \<open>increment\<close>: \<open>Math.max(1, ...)\<close> raises the cap to 1.
\<close>

theorem zero_cap_counterexample:
  "copt_maxTrackedKeys zero_cap_options = 0 \<and>
   bc_size (snd (increment (createBoundedCounter zero_cap_options) ''a'' 1000)) = 1 \<and>
   bc_size (bc_run (createBoundedCounter zero_cap_options) [(''a'', 1000)]) = 1"
  by (simp add: zero_cap_options_def createBoundedCounter_def increment_def bc_maybe_prune_def
      bc_size_def map_size_def map_get_def touch_def map_delete_def)


subsection \<open>Projector\<close>

lemma trim_example: "trim ''  not json '' = ''not json''"
  by (simp add: trim_def is_ws_def)

lemma lines_trim:
  "trim prompt3_line = prompt3_line" "trim error1_line = error1_line"
  "trim error3_line = error3_line" "trim done3_line = done3_line"
  "trim chunk_line = chunk_line" "trim blank3_line = blank3_line"
  by (simp_all add: trim_def is_ws_def prompt3_line_def error1_line_def error3_line_def
      done3_line_def chunk_line_def blank3_line_def)

lemma lines_nonempty:
  "prompt3_line \<noteq> []" "error1_line \<noteq> []" "error3_line \<noteq> []" "done3_line \<noteq> []"
  "chunk_line \<noteq> []" "blank3_line \<noteq> []"
  by (simp_all add: prompt3_line_def error1_line_def error3_line_def done3_line_def
      chunk_line_def blank3_line_def)

lemma test_parse_simps:
  "test_parse prompt3_line = Some prompt3_json"
  "test_parse error1_line = Some error1_json"
  "test_parse error3_line = Some error3_json"
  "test_parse done3_line = Some done3_json"
  "test_parse chunk_line = Some (JObj (update_message chunk_update))"
  "test_parse ''not json'' = None"
  "test_parse blank3_line = Some blank3_json"
  by (simp_all add: test_parse_def prompt3_line_def error1_line_def error3_line_def
      done3_line_def chunk_line_def blank3_line_def)

lemma show_int_values:
  "show_int 3 = ''3''" "show_int 1 = ''1''" "show_int (- 32000) = ''-32000''"
  "show_int (- 32002) = ''-32002''" "show_int 12 = ''12''" "show_int 100 = ''100''"
  by (simp_all add: show_int_def show_nat.simps digit_def)


lemma test_env_simps:
  "JSON_parse test_env = test_parse"
  "isAcpJsonRpcMessage test_env = spec_isAcpJsonRpcMessage"
  "normalizeJsonRpcId test_env = spec_normalizeJsonRpcId show_int"
  "numberToString test_env = show_int"
  by (simp_all add: test_env_def)

lemma test_ids:
  "spec_normalizeJsonRpcId show_int (getProp [(''jsonrpc'', JStr ''2.0''), (''id'', JNum 3), r] ''id'') = Some ''3''"
  "spec_normalizeJsonRpcId show_int (getProp [(''jsonrpc'', JStr ''2.0''), (''id'', JNum 1), r] ''id'') = Some ''1''"
  by (simp_all add: spec_normalizeJsonRpcId_def getProp_def show_int_values)

text \<open>
  Claim C5. A line whose trimmed text is not empty and which \<open>JSON.parse\<close> rejects
  gives a status event carrying the trimmed text and leaves the projector unchanged;
  the thrown \<open>SyntaxError\<close> is caught, so nothing escapes. A line that is blank after
  trimming gives nothing. Both revisions of \<open>ingestLine\<close> do so.
\<close>

theorem ingestLine_malformed:
  "(trim line \<noteq> [] \<and> JSON_parse env (trim line) = None \<longrightarrow>
      ingestLine env ids line = (Some (Status (trim line) None None None), ids)) \<and>
   (trim line = [] \<longrightarrow> ingestLine env ids line = (None, ids)) \<and>
   (trim line \<noteq> [] \<and> JSON_parse env (trim line) = None \<longrightarrow>
      ingestLine_gated env ids line = (Some (Status (trim line) None None None), ids)) \<and>
   (trim line = [] \<longrightarrow> ingestLine_gated env ids line = (None, ids))"
  by (simp add: ingestLine_def ingestLine_gated_def Let_def)

theorem ingestLine_malformed_witness:
  "trim ''  not json '' \<noteq> [] \<and> JSON_parse test_env (trim ''  not json '') = None \<and>
   ingestLine test_env {} ''  not json '' = (Some (Status ''not json'' None None None), {}) \<and>
   trim [CHR '' '', CHR 0x09, CHR 0x0D] = [] \<and>
   ingestLine test_env {} [CHR '' '', CHR 0x09, CHR 0x0D] = (None, {}) \<and>
   ingestLine_gated test_env {} ''  not json '' = (Some (Status ''not json'' None None None), {}) \<and>
   ingestLine_gated test_env {} [CHR '' '', CHR 0x09, CHR 0x0D] = (None, {})"
proof -
  have t: "trim ''  not json '' = ''not json''" by (simp add: trim_def is_ws_def)
  have p: "JSON_parse test_env (trim ''  not json '') = None"
    unfolding t by (simp add: test_env_def test_parse_simps)
  have b: "trim [CHR '' '', CHR 0x09, CHR 0x0D] = []" by (simp add: trim_def is_ws_def)
  note M = ingestLine_malformed[of "''  not json ''" test_env "{}"]
  note B = ingestLine_malformed[of "[CHR '' '', CHR 0x09, CHR 0x0D]" test_env "{}"]
  have "ingestLine test_env {} ''  not json '' = (Some (Status (trim ''  not json '') None None None), {})"
    and "ingestLine_gated test_env {} ''  not json '' =
      (Some (Status (trim ''  not json '') None None None), {})"
    using M p t by simp_all
  moreover have "ingestLine test_env {} [CHR '' '', CHR 0x09, CHR 0x0D] = (None, {})"
    and "ingestLine_gated test_env {} [CHR '' '', CHR 0x09, CHR 0x0D] = (None, {})"
    using B b by simp_all
  ultimately show ?thesis using t p b by simp
qed












lemma example_defs:
  "chunk_update = [(''sessionUpdate'', JStr ''agent_message_chunk''),
      (''content'', JObj [(''type'', JStr ''text''), (''text'', JStr ''  indented'')])]"
  "untyped_chunk_update = [(''sessionUpdate'', JStr ''agent_message_chunk''),
      (''content'', JObj [(''text'', JStr ''hi'')])]"
  "fallback_chunk_update = [(''sessionUpdate'', JStr ''agent_message_chunk''), (''text'', JStr ''hi'')]"
  by (simp_all add: chunk_update_def untyped_chunk_update_def fallback_chunk_update_def)










lemma response_line_gated:
  assumes "trim line \<noteq> []"
    and "JSON_parse env (trim line) = Some (JObj msg)"
    and "isAcpJsonRpcMessage env msg"
    and "asTrimmedString (getProp msg ''method'') \<noteq> ''session/prompt''"
    and "asTrimmedString (getProp msg ''method'') \<noteq> ''session/update''"
  shows "ingestLine_gated env ids line =
     (if hasOwn msg ''error'' then
        (case consumePromptResponse env ids msg of
           (False, ids') \<Rightarrow> (None, ids')
         | (True, ids') \<Rightarrow> (Some (errorEvent env msg), ids'))
      else case parsePromptStopReason msg of
        None \<Rightarrow> (None, ids)
      | Some r \<Rightarrow>
          (case consumePromptResponse env ids msg of
             (False, ids') \<Rightarrow> (None, ids')
           | (True, ids') \<Rightarrow> (Some (Done r), ids')))"
  using assms
  by (simp add: ingestLine_gated_def Let_def ingestMessage_gated_def
      parseSessionUpdateEvent_gated_def)

lemma stopReason_cases:
  assumes "getProp msg ''result'' = Some (JObj res)" "getProp res ''stopReason'' = Some (JStr r)"
  shows "parsePromptStopReason msg = (if trim r \<noteq> [] then Some r else None)"
  using assms
  by (auto simp: parsePromptStopReason_def hasOwn_def getProp_def asRecord_def asString_def
      trim_def)

text \<open>
  Claim C1. Take a line that decodes to a protocol message which is neither a prompt
  request nor a session update. If the message has an \<open>error\<close> property,
  \<open>ingestLine\<close> returns the error event (the trimmed message or
  \<open>acpx runtime error\<close>, and the code: a number stringified, else the trimmed string)
  exactly when the normalised id is a non-empty member of the prompt correlation set,
  and then removes that id from the set; otherwise it returns nothing and leaves the
  set as it was. If the message has no \<open>error\<close> and \<open>result.stopReason\<close> is a string
  that is not empty after trimming, the same holds with the done event carrying the
  untrimmed stop reason. If the stop reason is blank, nothing is returned and the set
  is unchanged, whatever the id.
\<close>

theorem response_correlated_consumed:
  assumes "trim line \<noteq> []"
    and "JSON_parse env (trim line) = Some (JObj msg)"
    and "isAcpJsonRpcMessage env msg"
    and "asTrimmedString (getProp msg ''method'') \<noteq> ''session/prompt''"
    and "asTrimmedString (getProp msg ''method'') \<noteq> ''session/update''"
  shows
    "(hasOwn msg ''error'' \<longrightarrow>
        ingestLine_gated env ids line =
          (case normalizeJsonRpcId env (getProp msg ''id'') of
             None \<Rightarrow> (None, ids)
           | Some i \<Rightarrow>
               if i \<noteq> [] \<and> i \<in> ids
               then (Some
                      (let err = asRecord (getProp msg ''error'');
                           m = asTrimmedString (optProp err ''message'');
                           cv = optProp err ''code''
                       in Error (if m \<noteq> [] then m else ''acpx runtime error'')
                            (case cv of
                               Some (JNum n) \<Rightarrow> Some (numberToString env n)
                             | _ \<Rightarrow> asOptionalString cv)),
                     ids - {i})
               else (None, ids))) \<and>
     (\<forall>res r. \<not> hasOwn msg ''error'' \<and> getProp msg ''result'' = Some (JObj res) \<and>
        getProp res ''stopReason'' = Some (JStr r) \<and> trim r \<noteq> [] \<longrightarrow>
        ingestLine_gated env ids line =
          (case normalizeJsonRpcId env (getProp msg ''id'') of
             None \<Rightarrow> (None, ids)
           | Some i \<Rightarrow>
               if i \<noteq> [] \<and> i \<in> ids then (Some (Done r), ids - {i}) else (None, ids))) \<and>
     (\<forall>res r. \<not> hasOwn msg ''error'' \<and> getProp msg ''result'' = Some (JObj res) \<and>
        getProp res ''stopReason'' = Some (JStr r) \<and> trim r = [] \<longrightarrow>
        ingestLine_gated env ids line = (None, ids))"
proof -
  note R = response_line_gated[OF assms, of ids]
  have a: "ingestLine_gated env ids line =
          (case normalizeJsonRpcId env (getProp msg ''id'') of
             None \<Rightarrow> (None, ids)
           | Some i \<Rightarrow>
               if i \<noteq> [] \<and> i \<in> ids
               then (Some
                      (let err = asRecord (getProp msg ''error'');
                           m = asTrimmedString (optProp err ''message'');
                           cv = optProp err ''code''
                       in Error (if m \<noteq> [] then m else ''acpx runtime error'')
                            (case cv of
                               Some (JNum n) \<Rightarrow> Some (numberToString env n)
                             | _ \<Rightarrow> asOptionalString cv)),
                     ids - {i})
               else (None, ids))"
    if "hasOwn msg ''error''"
    unfolding R using that
    by (auto simp: consumePromptResponse_def errorEvent_def errorCode_def Let_def
        split: option.splits json.splits)
  have b: "ingestLine_gated env ids line =
          (case normalizeJsonRpcId env (getProp msg ''id'') of
             None \<Rightarrow> (None, ids)
           | Some i \<Rightarrow>
               if i \<noteq> [] \<and> i \<in> ids then (Some (Done r), ids - {i}) else (None, ids))"
    if "\<not> hasOwn msg ''error''" "getProp msg ''result'' = Some (JObj res)"
      "getProp res ''stopReason'' = Some (JStr r)" "trim r \<noteq> []" for res r
    unfolding R using that stopReason_cases[OF that(2,3)]
    by (auto simp: consumePromptResponse_def split: option.splits)
  have c: "ingestLine_gated env ids line = (None, ids)"
    if "\<not> hasOwn msg ''error''" "getProp msg ''result'' = Some (JObj res)"
      "getProp res ''stopReason'' = Some (JStr r)" "trim r = []" for res r
    unfolding R using that stopReason_cases[OF that(2,3)] by simp
  show ?thesis
    by (rule conjI, rule impI, erule a, rule conjI, (intro allI impI, elim conjE, erule (3) b),
        intro allI impI, elim conjE, erule (3) c)
qed


lemma test_id_values:
  "spec_normalizeJsonRpcId show_int (Some (JNum 3)) = Some ''3''"
  "spec_normalizeJsonRpcId show_int (Some (JNum 1)) = Some ''1''"
  by (simp_all add: spec_normalizeJsonRpcId_def show_int_values)

lemma response_json_defs:
  "error1_json = JObj [(''jsonrpc'', JStr ''2.0''), (''id'', JNum 1),
      (''error'', JObj [(''code'', JNum (- 32002)), (''message'', JStr ''Resource not found'')])]"
  "error3_json = JObj [(''jsonrpc'', JStr ''2.0''), (''id'', JNum 3),
      (''error'', JObj [(''code'', JNum (- 32000)), (''message'', JStr ''adapter failed'')])]"
  "done3_json = JObj [(''jsonrpc'', JStr ''2.0''), (''id'', JNum 3),
      (''result'', JObj [(''stopReason'', JStr ''end_turn'')])]"
  "blank3_json = JObj [(''jsonrpc'', JStr ''2.0''), (''id'', JNum 3),
      (''result'', JObj [(''stopReason'', JStr ''  '')])]"
  by (simp_all add: error1_json_def error3_json_def done3_json_def blank3_json_def)

lemma response_is_message:
  "spec_isAcpJsonRpcMessage [(''jsonrpc'', JStr ''2.0''), (''id'', i), (''error'', e)]"
  "spec_isAcpJsonRpcMessage [(''jsonrpc'', JStr ''2.0''), (''id'', i), (''result'', e)]"
  "spec_isAcpJsonRpcMessage [(''jsonrpc'', JStr ''2.0''), (''id'', i), (''method'', e), p]"
  by (simp_all add: spec_isAcpJsonRpcMessage_def hasOwn_def getProp_def)

lemma ingest_parsed_gated:
  assumes "trim line = line" "line \<noteq> []" "test_parse line = Some (JObj msg)"
    "spec_isAcpJsonRpcMessage msg"
  shows "ingestLine_gated test_env ids line = ingestMessage_gated test_env ids msg"
  using assms by (simp add: ingestLine_gated_def Let_def test_env_simps)

lemma response_no_method:
  "asTrimmedString (getProp [(''jsonrpc'', JStr ''2.0''), (''id'', i), (''error'', e)] ''method'') = []"
  "asTrimmedString (getProp [(''jsonrpc'', JStr ''2.0''), (''id'', i), (''result'', e)] ''method'') = []"
  by (simp_all add: getProp_def asTrimmedString_def)

lemma prompt3_gated:
  "ingestLine_gated test_env ids prompt3_line = (None, insert ''3'' ids)"
  unfolding ingest_parsed_gated[OF lines_trim(1) lines_nonempty(1)
      test_parse_simps(1)[unfolded prompt3_json_def] response_is_message(3)]
  by (simp add: ingestMessage_gated_def test_env_simps getProp_def asTrimmedString_def
      trim_def is_ws_def spec_normalizeJsonRpcId_def show_int_values)

text \<open>The example of the spec: a prompt with id 3, an error on id 1, the response on
  id 3, and the same response once more.\<close>

theorem response_correlated_consumed_witness:
  "trim done3_line \<noteq> [] \<and>
   JSON_parse test_env (trim done3_line) = Some done3_json \<and>
   trim error3_line \<noteq> [] \<and>
   JSON_parse test_env (trim error3_line) = Some error3_json \<and>
   trim error1_line \<noteq> [] \<and>
   JSON_parse test_env (trim error1_line) = Some error1_json \<and>
   trim blank3_line \<noteq> [] \<and>
   JSON_parse test_env (trim blank3_line) = Some blank3_json \<and>
   ingestLine_gated test_env {''3''} done3_line = (Some (Done ''end_turn''), {}) \<and>
   ingestLine_gated test_env {} done3_line = (None, {}) \<and>
   ingestLine_gated test_env {''3''} error3_line =
     (Some (Error ''adapter failed'' (Some ''-32000'')), {}) \<and>
   ingestLine_gated test_env {''3''} error1_line = (None, {''3''}) \<and>
   ingestLine_gated test_env {''3''} blank3_line = (None, {''3''}) \<and>
   ingestLines_gated test_env {} [prompt3_line, error1_line, done3_line, done3_line] =
     ([None, None, Some (Done ''end_turn''), None], {})"
proof -
  have l: "trim done3_line \<noteq> []" "JSON_parse test_env (trim done3_line) = Some done3_json"
    "trim error3_line \<noteq> []" "JSON_parse test_env (trim error3_line) = Some error3_json"
    "trim error1_line \<noteq> []" "JSON_parse test_env (trim error1_line) = Some error1_json"
    "trim blank3_line \<noteq> []" "JSON_parse test_env (trim blank3_line) = Some blank3_json"
    by (simp_all add: lines_trim lines_nonempty test_env_simps test_parse_simps)
  have m: "isAcpJsonRpcMessage test_env [(''jsonrpc'', JStr ''2.0''), (''id'', i), (''error'', e)]"
    "isAcpJsonRpcMessage test_env [(''jsonrpc'', JStr ''2.0''), (''id'', i), (''result'', e)]"
    for i e
    by (simp_all add: test_env_simps response_is_message)
  have n: "asTrimmedString (getProp [(''jsonrpc'', JStr ''2.0''), (''id'', i), (''error'', e)]
        ''method'') \<noteq> ''session/prompt''"
    "asTrimmedString (getProp [(''jsonrpc'', JStr ''2.0''), (''id'', i), (''error'', e)]
        ''method'') \<noteq> ''session/update''"
    "asTrimmedString (getProp [(''jsonrpc'', JStr ''2.0''), (''id'', i), (''result'', e)]
        ''method'') \<noteq> ''session/prompt''"
    "asTrimmedString (getProp [(''jsonrpc'', JStr ''2.0''), (''id'', i), (''result'', e)]
        ''method'') \<noteq> ''session/update''"
    for i e
    by (simp_all add: response_no_method)
  note D = response_correlated_consumed[OF l(1) l(2)[unfolded response_json_defs] m(2) n(3,4)]
  note E3 = response_correlated_consumed[OF l(3) l(4)[unfolded response_json_defs] m(1) n(1,2)]
  note E1 = response_correlated_consumed[OF l(5) l(6)[unfolded response_json_defs] m(1) n(1,2)]
  note B = response_correlated_consumed[OF l(7) l(8)[unfolded response_json_defs] m(2) n(3,4)]
  have d3: "ingestLine_gated test_env {''3''} done3_line = (Some (Done ''end_turn''), {})"
    using D[of "{''3''}"]
    by (simp add: response_no_method test_env_simps test_ids test_id_values hasOwn_def getProp_def trim_def is_ws_def)
  have d0: "ingestLine_gated test_env {} done3_line = (None, {})"
    using D[of "{}"]
    by (simp add: response_no_method test_env_simps test_ids test_id_values hasOwn_def getProp_def trim_def is_ws_def)
  have e3: "ingestLine_gated test_env {''3''} error3_line =
     (Some (Error ''adapter failed'' (Some ''-32000'')), {})"
    using E3[of "{''3''}"]
    by (simp add: response_no_method test_env_simps test_ids test_id_values hasOwn_def getProp_def optProp_def
        asRecord_def asTrimmedString_def trim_def is_ws_def show_int_values)
  have e1: "ingestLine_gated test_env {''3''} error1_line = (None, {''3''})"
    using E1[of "{''3''}"]
    by (simp add: response_no_method test_env_simps test_ids test_id_values hasOwn_def)
  have e1': "ingestLine_gated test_env (insert ''3'' {}) error1_line = (None, {''3''})"
    using e1 by simp
  have b3: "ingestLine_gated test_env {''3''} blank3_line = (None, {''3''})"
    using B[of "{''3''}"]
    by (simp add: response_no_method hasOwn_def getProp_def trim_def is_ws_def)
  have run: "ingestLines_gated test_env {} [prompt3_line, error1_line, done3_line, done3_line] =
     ([None, None, Some (Done ''end_turn''), None], {})"
    by (simp add: prompt3_gated e1 d3 d0)
  show ?thesis using l d3 d0 e3 e1 b3 run by simp
qed

text \<open>A response whose stop reason is two spaces, with its id awaited: nothing is
  returned and the id stays in the set.\<close>

theorem blank_stop_reason_counterexample:
  "getProp [(''stopReason'', JStr ''  '')] ''stopReason'' = Some (JStr ''  '') \<and>
   ''  '' \<noteq> [] \<and>
   JSON_parse test_env (trim blank3_line) = Some blank3_json \<and>
   normalizeJsonRpcId test_env
     (getProp [(''jsonrpc'', JStr ''2.0''), (''id'', JNum 3),
               (''result'', JObj [(''stopReason'', JStr ''  '')])] ''id'') = Some ''3'' \<and>
   ingestLine_gated test_env {''3''} blank3_line = (None, {''3''})"
proof -
  have a: "ingestLine_gated test_env {''3''} blank3_line = (None, {''3''})"
    unfolding ingest_parsed_gated[OF lines_trim(6) lines_nonempty(6)
      test_parse_simps(7)[unfolded blank3_json_def] response_is_message(2)]
    by (simp add: ingestMessage_gated_def test_env_simps
      hasOwn_def getProp_def asTrimmedString_def asRecord_def asString_def trim_def is_ws_def
      spec_normalizeJsonRpcId_def show_int_values parseSessionUpdateEvent_gated_def
      parsePromptStopReason_def)
  have b: "JSON_parse test_env (trim blank3_line) = Some blank3_json"
    by (simp add: lines_trim test_env_simps test_parse_simps)
  show ?thesis using a b by (simp add: test_env_simps test_ids test_id_values getProp_def)
qed









subsection \<open>Reply projection pipeline\<close>

text \<open>The ranges that \<open>resolveAcpProjectionSettings\<close> guarantees.\<close>

lemma clampPositiveInteger_range:
  "bmin \<le> fallback \<Longrightarrow> fallback \<le> bmax \<Longrightarrow> bmin \<le> bmax \<Longrightarrow>
   bmin \<le> clampPositiveInteger v fallback bmin bmax \<and>
   clampPositiveInteger v fallback bmin bmax \<le> bmax"
  by (auto simp: clampPositiveInteger_def split: option.splits)

lemma resolved_bounds:
  "1 \<le> maxTurnChars (resolveAcpProjectionSettings c)"
  "64 \<le> maxToolSummaryChars (resolveAcpProjectionSettings c)"
  "64 \<le> maxStatusChars (resolveAcpProjectionSettings c)"
  "1 \<le> maxMetaEventsPerTurn (resolveAcpProjectionSettings c)"
  using clampPositiveInteger_range[of 1 24000 500000 "cfg_maxTurnChars c"]
    clampPositiveInteger_range[of 64 320 8000 "cfg_maxToolSummaryChars c"]
    clampPositiveInteger_range[of 64 320 8000 "cfg_maxStatusChars c"]
    clampPositiveInteger_range[of 1 64 2000 "cfg_maxMetaEventsPerTurn c"]
  by (simp_all add: resolveAcpProjectionSettings_def)

lemma deliveries_append: "deliveries (xs @ ys) = deliveries xs @ deliveries ys"
  by (induction xs rule: deliveries.induct) auto

lemma appendedText_append: "appendedText (xs @ ys) = appendedText xs @ appendedText ys"
  by (induction xs rule: appendedText.induct) auto

lemma perform_simps:
  "actions (perform a s) = actions s @ [a]"
  "emittedTurnChars (perform a s) = emittedTurnChars s"
  "emittedMetaEvents (perform a s) = emittedMetaEvents s"
  "truncationNoticeEmitted (perform a s) = truncationNoticeEmitted s"
  "lastStatusHash (perform a s) = lastStatusHash s"
  "lastToolHash (perform a s) = lastToolHash s"
  "lastUsageTuple (perform a s) = lastUsageTuple s"
  "toolLifecycleById (perform a s) = toolLifecycleById s"
  by (simp_all add: perform_def)

text \<open>What a forced flush appends.\<close>

lemma flushReply_forced:
  "flushReply env True s = s\<lparr> actions := actions s @ [ChunkerDrain True, PipelineFlush True] \<rparr>"
  by (simp add: flushReply_def drainChunker_def perform_def)

lemma emitSystemStatus_eq:
  "emitSystemStatus env text meta force dedupe s =
     (if statusDelivers env text force dedupe s
      then s\<lparr> emittedMetaEvents := (if force then emittedMetaEvents s else emittedMetaEvents s + 1),
              actions := actions s @ liveFlush env @
                [DeliverTool (prefixSystemMessage env
                    (truncateText (trim text) (maxStatusChars (settings env)))) meta],
              lastStatusHash := Some (hashText (prefixSystemMessage env
                    (truncateText (trim text) (maxStatusChars (settings env))))) \<rparr>
      else s)"
  by (auto simp: emitSystemStatus_def statusDelivers_def Let_def consumeMetaQuota_def
      flushReply_forced perform_def liveFlush_def)


lemma statusDelivers_usage [simp]:
  "statusDelivers env text force dedupe (s\<lparr> lastUsageTuple := x \<rparr>) =
   statusDelivers env text force dedupe s"
  by (simp add: statusDelivers_def)

lemma liveFlush_deliveries [simp]: "deliveries (liveFlush env) = []"
  by (simp add: liveFlush_def)

lemma onStatus_deliveries:
  "deliveries (actions (onStatus env text tag usedv sizev s)) =
     deliveries (actions s) @
       (if statusAccepted env text tag usedv sizev s then [statusDelivery env text tag] else [])"
  by (auto simp: onStatus_def emitSystemStatus_eq statusAccepted_def statusDelivery_def
      usageTupleOf_def Let_def deliveries_append split: option.splits)

lemma statusAccepted_after_reset:
  assumes "statusAccepted env text tag usedv sizev s0"
  shows "statusAccepted env text tag usedv sizev (resetTurnState s)"
  using assms by (auto simp: statusAccepted_def statusDelivers_def resetTurnState_def)

lemma statusAccepted_not_twice:
  assumes "statusAccepted env text tag usedv sizev s"
  shows "\<not> statusAccepted env text tag usedv sizev (onStatus env text tag usedv sizev s)"
  using assms
  by (auto simp: statusAccepted_def onStatus_def emitSystemStatus_eq usageTupleOf_def Let_def
      statusDelivers_def split: option.splits)

lemma boundary_step:
  "is_boundary ev \<Longrightarrow> onEvent env s ev = resetTurnState (flushReply env True s)"
  by (cases ev) (simp_all add: is_boundary_def)

lemma resetTurnState_actions [simp]: "actions (resetTurnState s) = actions s"
  by (simp add: resetTurnState_def)

lemma resetTurnState_idem: "resetTurnState (resetTurnState s) = resetTurnState s"
  by (simp add: resetTurnState_def)

text \<open>
  Claim C7. On a \<open>done\<close> or \<open>error\<close> event the pipeline first performs the forced
  flush (the chunker is drained with force and the block reply pipeline is flushed
  with force, in final-only mode too, with no quota or dedup test on the way) and then
  resets every turn-scoped variable: character budget, meta-event count, truncation
  flag, the status, tool and usage dedup values and the tool lifecycle map.
  Consequently a status event that is delivered once is delivered again when it is
  repeated after the boundary, whereas repeated without a boundary it is delivered
  only once.
\<close>

theorem turn_boundary_flush_reset:
  assumes "is_boundary ev"
  shows "onEvent env s ev =
           \<lparr> emittedTurnChars = 0, emittedMetaEvents = 0, truncationNoticeEmitted = False,
             lastStatusHash = None, lastToolHash = None, lastUsageTuple = None,
             toolLifecycleById = Map.empty,
             actions = actions s @ [ChunkerDrain True, PipelineFlush True] \<rparr> \<and>
         (\<forall>d. deliveries (actions (onEvent env s (Status text tag usedv sizev))) =
                 deliveries (actions s) @ [d] \<longrightarrow>
               deliveries (actions (runEvents env s
                   [Status text tag usedv sizev, ev, Status text tag usedv sizev])) =
                 deliveries (actions s) @ [d, d] \<and>
               deliveries (actions (runEvents env s
                   [Status text tag usedv sizev, Status text tag usedv sizev])) =
                 deliveries (actions s) @ [d])"
proof -
  let ?e = "Status text tag usedv sizev"
  have b: "onEvent env t ev = resetTurnState (flushReply env True t)" for t
    using assms by (rule boundary_step)
  have first: "onEvent env s ev =
           \<lparr> emittedTurnChars = 0, emittedMetaEvents = 0, truncationNoticeEmitted = False,
             lastStatusHash = None, lastToolHash = None, lastUsageTuple = None,
             toolLifecycleById = Map.empty,
             actions = actions s @ [ChunkerDrain True, PipelineFlush True] \<rparr>"
    unfolding b by (simp add: resetTurnState_def flushReply_forced)
  have second: "deliveries (actions (runEvents env s [?e, ev, ?e])) = deliveries (actions s) @ [d, d] \<and>
      deliveries (actions (runEvents env s [?e, ?e])) = deliveries (actions s) @ [d]"
    if d: "deliveries (actions (onEvent env s ?e)) = deliveries (actions s) @ [d]" for d
  proof -
    have acc: "statusAccepted env text tag usedv sizev s" and dd: "d = statusDelivery env text tag"
      using d by (auto simp: onStatus_deliveries split: if_splits)
    let ?s1 = "onStatus env text tag usedv sizev s"
    have d1: "deliveries (actions ?s1) = deliveries (actions s) @ [d]"
      using d by simp
    have acc2: "statusAccepted env text tag usedv sizev (resetTurnState (flushReply env True ?s1))"
      using acc by (rule statusAccepted_after_reset)
    have "deliveries (actions (onStatus env text tag usedv sizev (resetTurnState (flushReply env True ?s1)))) =
        deliveries (actions s) @ [d, d]"
      using acc2 d1 dd by (simp add: onStatus_deliveries flushReply_forced deliveries_append)
    moreover have "deliveries (actions (onStatus env text tag usedv sizev ?s1)) = deliveries (actions s) @ [d]"
      using statusAccepted_not_twice[OF acc] d1 by (simp add: onStatus_deliveries)
    ultimately show ?thesis by (simp add: runEvents_def b)
  qed
  show ?thesis using first second by blast
qed


lemma trim_notice: "trim ''output truncated'' = ''output truncated''"
  by (simp add: trim_def is_ws_def)

lemma truncate_notice:
  "16 \<le> n \<Longrightarrow> truncateText ''output truncated'' n = ''output truncated''"
  by (simp add: truncateText_def)

lemma emitTruncationNotice_eq:
  assumes "16 \<le> maxStatusChars (settings env)"
  shows "emitTruncationNotice env s =
     (if truncationNoticeEmitted s then s
      else if shouldSendToolSummaries env
      then s\<lparr> truncationNoticeEmitted := True,
              actions := actions s @ liveFlush env @
                 [DeliverTool (prefixSystemMessage env ''output truncated'') (Some truncationMeta)],
              lastStatusHash := Some (hashText (prefixSystemMessage env ''output truncated'')) \<rparr>
      else s\<lparr> truncationNoticeEmitted := True \<rparr>)"
  using assms
  by (simp add: emitTruncationNotice_def emitSystemStatus_eq statusDelivers_def trim_notice
      truncate_notice)

lemma emitTruncationNotice_facts:
  assumes "16 \<le> maxStatusChars (settings env)"
  shows "emittedTurnChars (emitTruncationNotice env s) = emittedTurnChars s"
    and "truncationNoticeEmitted (emitTruncationNotice env s)"
    and "appendedText (actions (emitTruncationNotice env s)) = appendedText (actions s)"
    and "deliveries (actions (emitTruncationNotice env s)) =
           deliveries (actions s) @
             (if \<not> truncationNoticeEmitted s \<and> shouldSendToolSummaries env
              then [noticeDelivery env] else [])"
  by (simp_all add: emitTruncationNotice_eq[OF assms] appendedText_append deliveries_append
      liveFlush_def noticeDelivery_def)

lemma drainChunker_facts:
  "emittedTurnChars (drainChunker env f s) = emittedTurnChars s"
  "truncationNoticeEmitted (drainChunker env f s) = truncationNoticeEmitted s"
  "appendedText (actions (drainChunker env f s)) = appendedText (actions s)"
  "deliveries (actions (drainChunker env f s)) = deliveries (actions s)"
  by (simp_all add: drainChunker_def perform_def appendedText_append deliveries_append)

lemma onTextDelta_step:
  assumes ms: "16 \<le> maxStatusChars (settings env)"
    and vis: "strm = None \<or> strm = Some Output" "isTagVisible (settings env) tag" "text \<noteq> []"
    and le: "emittedTurnChars s \<le> maxTurnChars (settings env)"
  shows "emittedTurnChars (onTextDelta env text strm tag s) =
           min (maxTurnChars (settings env)) (emittedTurnChars s + length text)"
    and "truncationNoticeEmitted (onTextDelta env text strm tag s) =
           (truncationNoticeEmitted s \<or> emittedTurnChars s + length text > maxTurnChars (settings env))"
    and "appendedText (actions (onTextDelta env text strm tag s)) =
           appendedText (actions s) @ take (maxTurnChars (settings env) - emittedTurnChars s) text"
    and "deliveries (actions (onTextDelta env text strm tag s)) =
           deliveries (actions s) @
             (if \<not> truncationNoticeEmitted s \<and>
                 emittedTurnChars s + length text > maxTurnChars (settings env) \<and>
                 shouldSendToolSummaries env
              then [noticeDelivery env] else [])"
proof -
  let ?M = "maxTurnChars (settings env)"
  let ?e = "emittedTurnChars s"
  note F = emitTruncationNotice_facts[OF ms]
  consider (full) "?e = ?M" | (cut) "?e < ?M" "?M - ?e < length text"
    | (fits) "?e < ?M" "length text \<le> ?M - ?e"
    using le by linarith
  then have "emittedTurnChars (onTextDelta env text strm tag s) = min ?M (?e + length text) \<and>
      truncationNoticeEmitted (onTextDelta env text strm tag s) =
           (truncationNoticeEmitted s \<or> ?e + length text > ?M) \<and>
      appendedText (actions (onTextDelta env text strm tag s)) =
           appendedText (actions s) @ take (?M - ?e) text \<and>
      deliveries (actions (onTextDelta env text strm tag s)) =
           deliveries (actions s) @
             (if \<not> truncationNoticeEmitted s \<and> ?e + length text > ?M \<and> shouldSendToolSummaries env
              then [noticeDelivery env] else [])"
  proof cases
    case full
    then show ?thesis using vis
      by (auto simp: onTextDelta_def F)
  next
    case cut
    then show ?thesis using vis
      by (auto simp: onTextDelta_def Let_def F drainChunker_facts perform_simps
          appendedText_append deliveries_append min_def)
  next
    case fits
    then show ?thesis using vis
      by (auto simp: onTextDelta_def Let_def F drainChunker_facts perform_simps
          appendedText_append deliveries_append min_def)
  qed
  then show "emittedTurnChars (onTextDelta env text strm tag s) = min ?M (?e + length text)"
    and "truncationNoticeEmitted (onTextDelta env text strm tag s) =
           (truncationNoticeEmitted s \<or> ?e + length text > ?M)"
    and "appendedText (actions (onTextDelta env text strm tag s)) =
           appendedText (actions s) @ take (?M - ?e) text"
    and "deliveries (actions (onTextDelta env text strm tag s)) =
           deliveries (actions s) @
             (if \<not> truncationNoticeEmitted s \<and> ?e + length text > ?M \<and> shouldSendToolSummaries env
              then [noticeDelivery env] else [])"
    by blast+
qed

lemma onTextDelta_skip:
  assumes "\<not> ((strm = None \<or> strm = Some Output) \<and> isTagVisible (settings env) tag) \<or> text = []"
  shows "onTextDelta env text strm tag s = s"
  using assms by (auto simp: onTextDelta_def)


lemma text_run:
  assumes ms: "16 \<le> maxStatusChars (settings env)"
    and td: "\<forall>e \<in> set es. is_text_delta e"
    and le: "emittedTurnChars s \<le> maxTurnChars (settings env)"
  shows "emittedTurnChars (runEvents env s es) =
           min (maxTurnChars (settings env))
             (emittedTurnChars s + length (concat (map (budgetText env) es))) \<and>
         truncationNoticeEmitted (runEvents env s es) =
           (truncationNoticeEmitted s \<or>
            emittedTurnChars s + length (concat (map (budgetText env) es)) > maxTurnChars (settings env)) \<and>
         appendedText (actions (runEvents env s es)) =
           appendedText (actions s) @
             take (maxTurnChars (settings env) - emittedTurnChars s) (concat (map (budgetText env) es)) \<and>
         deliveries (actions (runEvents env s es)) =
           deliveries (actions s) @
             (if \<not> truncationNoticeEmitted s \<and>
                 emittedTurnChars s + length (concat (map (budgetText env) es)) > maxTurnChars (settings env) \<and>
                 shouldSendToolSummaries env
              then [noticeDelivery env] else [])"
  using td le
proof (induction es arbitrary: s)
  case Nil
  then show ?case by (simp add: runEvents_def)
next
  case (Cons ev es)
  then obtain t strm tag where ev: "ev = TextDelta t strm tag"
    by (cases ev) (auto simp: is_text_delta_def)
  let ?M = "maxTurnChars (settings env)"
  let ?s1 = "onTextDelta env t strm tag s"
  let ?T = "concat (map (budgetText env) es)"
  have run: "runEvents env s (ev # es) = runEvents env ?s1 es"
    by (simp add: runEvents_def ev)
  show ?case
  proof (cases "(strm = None \<or> strm = Some Output) \<and> isTagVisible (settings env) tag \<and> t \<noteq> []")
    case False
    then have skip: "?s1 = s" by (intro onTextDelta_skip) auto
    have b: "budgetText env ev = []" using False by (auto simp: ev)
    show ?thesis
      unfolding run skip using Cons.IH[of s] Cons.prems b by simp
  next
    case True
    then have b: "budgetText env ev = t" by (simp add: ev)
    note S = onTextDelta_step[OF ms _ _ _ Cons.prems(2), of strm tag t]
    have e1: "emittedTurnChars ?s1 = min ?M (emittedTurnChars s + length t)"
      and f1: "truncationNoticeEmitted ?s1 =
           (truncationNoticeEmitted s \<or> emittedTurnChars s + length t > ?M)"
      and a1: "appendedText (actions ?s1) =
           appendedText (actions s) @ take (?M - emittedTurnChars s) t"
      and d1: "deliveries (actions ?s1) =
           deliveries (actions s) @
             (if \<not> truncationNoticeEmitted s \<and> emittedTurnChars s + length t > ?M \<and>
                 shouldSendToolSummaries env
              then [noticeDelivery env] else [])"
      using S True by blast+
    have le1: "emittedTurnChars ?s1 \<le> ?M" using e1 by simp
    have IH: "emittedTurnChars (runEvents env ?s1 es) = min ?M (emittedTurnChars ?s1 + length ?T) \<and>
         truncationNoticeEmitted (runEvents env ?s1 es) =
           (truncationNoticeEmitted ?s1 \<or> emittedTurnChars ?s1 + length ?T > ?M) \<and>
         appendedText (actions (runEvents env ?s1 es)) =
           appendedText (actions ?s1) @ take (?M - emittedTurnChars ?s1) ?T \<and>
         deliveries (actions (runEvents env ?s1 es)) =
           deliveries (actions ?s1) @
             (if \<not> truncationNoticeEmitted ?s1 \<and> emittedTurnChars ?s1 + length ?T > ?M \<and>
                 shouldSendToolSummaries env
              then [noticeDelivery env] else [])"
      using Cons.IH[of ?s1] Cons.prems(1) le1 by simp
    have tk: "take (?M - emittedTurnChars s) (t @ ?T) =
        take (?M - emittedTurnChars s) t @ take (?M - emittedTurnChars ?s1) ?T"
      unfolding e1 using Cons.prems(2) by (simp add: min_def)
    define n where "n = length ?T"
    define k where "k = length t"
    define e where "e = emittedTurnChars s"
    have len: "length (concat (map (budgetText env) (ev # es))) = k + n"
      by (simp add: b n_def k_def)
    have e1': "emittedTurnChars ?s1 = min ?M (e + k)"
      and f1': "truncationNoticeEmitted ?s1 = (truncationNoticeEmitted s \<or> e + k > ?M)"
      using e1 f1 by (simp_all add: e_def k_def)
    have eM: "e \<le> ?M" using Cons.prems(2) by (simp add: e_def)
    have IHe: "emittedTurnChars (runEvents env ?s1 es) = min ?M (min ?M (e + k) + n)"
      and IHf: "truncationNoticeEmitted (runEvents env ?s1 es) =
          ((truncationNoticeEmitted s \<or> e + k > ?M) \<or> min ?M (e + k) + n > ?M)"
      and IHd: "deliveries (actions (runEvents env ?s1 es)) =
           deliveries (actions ?s1) @
             (if \<not> (truncationNoticeEmitted s \<or> e + k > ?M) \<and> min ?M (e + k) + n > ?M \<and>
                 shouldSendToolSummaries env
              then [noticeDelivery env] else [])"
      using IH unfolding e1' f1' n_def[symmetric] by blast+
    have d1': "deliveries (actions ?s1) =
           deliveries (actions s) @
             (if \<not> truncationNoticeEmitted s \<and> e + k > ?M \<and> shouldSendToolSummaries env
              then [noticeDelivery env] else [])"
      using d1 by (simp add: e_def k_def)
    have p1: "emittedTurnChars (runEvents env s (ev # es)) =
        min ?M (emittedTurnChars s + length (concat (map (budgetText env) (ev # es))))"
      unfolding run len IHe e_def[symmetric] using eM by (simp add: min_def)
    have p2: "truncationNoticeEmitted (runEvents env s (ev # es)) =
        (truncationNoticeEmitted s \<or>
         emittedTurnChars s + length (concat (map (budgetText env) (ev # es))) > ?M)"
      unfolding run len IHf e_def[symmetric] using eM by (auto simp: min_def)
    have p3: "appendedText (actions (runEvents env s (ev # es))) =
        appendedText (actions s) @
          take (?M - emittedTurnChars s) (concat (map (budgetText env) (ev # es)))"
      unfolding run using IH a1 tk b by simp
    have p4: "deliveries (actions (runEvents env s (ev # es))) =
        deliveries (actions s) @
          (if \<not> truncationNoticeEmitted s \<and>
              emittedTurnChars s + length (concat (map (budgetText env) (ev # es))) > ?M \<and>
              shouldSendToolSummaries env
           then [noticeDelivery env] else [])"
      unfolding run len IHd d1' e_def[symmetric] using eM by (auto simp: min_def)
    show ?thesis using p1 p2 p3 p4 by blast
  qed
qed

text \<open>
  Claim C2, with the caller's switch made explicit. From the start of a turn, for
  every sequence of text deltas: the text handed to the chunker is the first
  \<open>maxTurnChars\<close> code units of the concatenated visible output-stream text, so each
  delta is accepted up to \<open>min(remaining budget, delta length)\<close> and everything after
  the budget is dropped; and when that text is longer than \<open>maxTurnChars\<close> the pipeline
  delivers the "output truncated" status exactly once if \<open>shouldSendToolSummaries\<close>
  is set, and not at all if it is not. Nothing else is delivered directly.
  \<open>maxStatusChars\<close> is at least 64 after clamping; 16 is what the notice needs.
\<close>

theorem turn_budget_truncation:
  assumes "16 \<le> maxStatusChars (settings env)"
    and "\<forall>e \<in> set es. is_text_delta e"
    and "emittedTurnChars s = 0" and "\<not> truncationNoticeEmitted s"
  shows "appendedText (actions (runEvents env s es)) =
           appendedText (actions s) @
             take (maxTurnChars (settings env)) (concat (map (budgetText env) es)) \<and>
         deliveries (actions (runEvents env s es)) =
           deliveries (actions s) @
             (if length (concat (map (budgetText env) es)) > maxTurnChars (settings env) \<and>
                 shouldSendToolSummaries env
              then [(prefixSystemMessage env ''output truncated'', Some truncationMeta)] else []) \<and>
         emittedTurnChars (runEvents env s es) =
           min (maxTurnChars (settings env)) (length (concat (map (budgetText env) es))) \<and>
         (\<forall>text strm tag.
            emittedTurnChars (runEvents env s es) < maxTurnChars (settings env) \<and>
            budgetText env (TextDelta text strm tag) \<noteq> [] \<longrightarrow>
            appendedText (actions (onEvent env (runEvents env s es) (TextDelta text strm tag))) =
              appendedText (actions (runEvents env s es)) @
                take (min (maxTurnChars (settings env) - emittedTurnChars (runEvents env s es))
                        (length text)) text) \<and>
         (\<forall>e. is_text_delta e \<and>
            length (concat (map (budgetText env) es)) \<ge> maxTurnChars (settings env) \<longrightarrow>
            appendedText (actions (onEvent env (runEvents env s es) e)) =
              appendedText (actions (runEvents env s es)))"
proof -
  let ?M = "maxTurnChars (settings env)"
  let ?s' = "runEvents env s es"
  have le: "emittedTurnChars s \<le> ?M" using assms(3) by simp
  note R = text_run[OF assms(1,2) le]
  have e': "emittedTurnChars ?s' = min ?M (length (concat (map (budgetText env) es)))"
    using R assms(3) by simp
  have le': "emittedTurnChars ?s' \<le> ?M" using e' by simp
  have step: "appendedText (actions (onEvent env ?s' e)) =
      appendedText (actions ?s') @ take (?M - emittedTurnChars ?s') (budgetText env e)"
    if "is_text_delta e" for e
    using text_run[OF assms(1) _ le', of "[e]"] that by (simp add: runEvents_def)
  have p4: "appendedText (actions (onEvent env ?s' (TextDelta t strm tag))) =
      appendedText (actions ?s') @ take (min (?M - emittedTurnChars ?s') (length t)) t"
    if "budgetText env (TextDelta t strm tag) \<noteq> []" for t strm tag
  proof -
    have "budgetText env (TextDelta t strm tag) = t"
      using that by (simp split: if_splits)
    then show ?thesis
      using step[of "TextDelta t strm tag"] by (simp add: is_text_delta_def min_def)
  qed
  have p5: "appendedText (actions (onEvent env ?s' e)) = appendedText (actions ?s')"
    if "is_text_delta e" "length (concat (map (budgetText env) es)) \<ge> ?M" for e
    using step[OF that(1)] e' that(2) by simp
  show ?thesis
    using R assms(3,4) e' p4 p5 by (simp add: noticeDelivery_def)
qed


lemma test_settings:
  "settings test_reply_env =
     \<lparr> deliveryMode = live, metaMode = minimal, showUsage = False, maxTurnChars = 5,
       maxToolSummaryChars = 320, maxStatusChars = 320, maxMetaEventsPerTurn = 64,
       tagVisibility = Map.empty \<rparr>"
  "settings quiet_reply_env = settings test_reply_env"
  "shouldSendToolSummaries test_reply_env" "\<not> shouldSendToolSummaries quiet_reply_env"
  "prefixSystemMessage test_reply_env = (\<lambda>t. ''System: '' @ t)"
  "prefixSystemMessage quiet_reply_env = (\<lambda>t. ''System: '' @ t)"
  "toolSummaryDisplay test_reply_env = (\<lambda>m. ''Tool Call: '' @ m)"
  by (simp_all add: test_reply_env_def quiet_reply_env_def resolveAcpProjectionSettings_def
      test_stream_config_def resolveAcpDeliveryMode_def resolveAcpMetaMode_def
      clampPositiveInteger_def)

lemma test_bounds:
  "16 \<le> maxStatusChars (settings test_reply_env)" "16 \<le> maxStatusChars (settings quiet_reply_env)"
  "maxTurnChars (settings test_reply_env) = 5" "maxTurnChars (settings quiet_reply_env) = 5"
  by (simp_all add: test_settings)

lemma initial_simps:
  "emittedTurnChars initial_state = 0" "\<not> truncationNoticeEmitted initial_state"
  "actions initial_state = []" "emittedMetaEvents initial_state = 0"
  "lastStatusHash initial_state = None" "lastUsageTuple initial_state = None"
  "lastToolHash initial_state = None" "toolLifecycleById initial_state = Map.empty"
  by (simp_all add: initial_state_def)

lemma visible_None [simp]: "isTagVisible st None"
  by (simp add: isTagVisible_def)

lemma budget_values:
  "budgetText test_reply_env (TextDelta t (Some Output) None) = t"
  "budgetText test_reply_env (TextDelta t None None) = t"
  "budgetText quiet_reply_env (TextDelta t (Some Output) None) = t"
  by (simp_all add: isTagVisible_def)

theorem turn_budget_truncation_witness:
  "16 \<le> maxStatusChars (settings test_reply_env) \<and>
   is_text_delta (TextDelta ''hel'' (Some Output) None) \<and>
   is_text_delta (TextDelta ''lo world'' None None) \<and>
   emittedTurnChars initial_state = 0 \<and> \<not> truncationNoticeEmitted initial_state \<and>
   appendedText (actions (runEvents test_reply_env initial_state
      [TextDelta ''hel'' (Some Output) None, TextDelta ''lo world'' None None])) = ''hello'' \<and>
   deliveries (actions (runEvents test_reply_env initial_state
      [TextDelta ''hel'' (Some Output) None, TextDelta ''lo world'' None None])) =
     [(''System: output truncated'', Some truncationMeta)]"
proof -
  let ?es = "[TextDelta ''hel'' (Some Output) None, TextDelta ''lo world'' None None]"
  have td: "\<forall>e \<in> set ?es. is_text_delta e" by (simp add: is_text_delta_def)
  note T = turn_budget_truncation[OF test_bounds(1) td initial_simps(1,2)]
  have "appendedText (actions (runEvents test_reply_env initial_state ?es)) = ''hello''"
    using T by (simp add: budget_values test_bounds initial_simps)
  moreover have "deliveries (actions (runEvents test_reply_env initial_state ?es)) =
     [(''System: output truncated'', Some truncationMeta)]"
    using T by (simp add: budget_values test_bounds initial_simps test_settings)
  ultimately show ?thesis
    using test_bounds(1) initial_simps(1,2) td by simp
qed

text \<open>
  With \<open>shouldSendToolSummaries\<close> off and a budget of 5, the delta "hello world" is
  cut to "hello", the truncation flag is set, and no notice is delivered.
\<close>

theorem truncation_notice_suppressed_counterexample:
  "appendedText (actions (runEvents quiet_reply_env initial_state
      [TextDelta ''hello world'' (Some Output) None])) = ''hello'' \<and>
   deliveries (actions (runEvents quiet_reply_env initial_state
      [TextDelta ''hello world'' (Some Output) None])) = [] \<and>
   truncationNoticeEmitted (runEvents quiet_reply_env initial_state
      [TextDelta ''hello world'' (Some Output) None])"
proof -
  let ?es = "[TextDelta ''hello world'' (Some Output) None]"
  have td: "\<forall>e \<in> set ?es. is_text_delta e" by (simp add: is_text_delta_def)
  have le: "emittedTurnChars initial_state \<le> maxTurnChars (settings quiet_reply_env)"
    by (simp add: initial_simps)
  show ?thesis
    using text_run[OF test_bounds(2) td le]
    by (simp add: budget_values test_bounds initial_simps test_settings)
qed

theorem turn_boundary_flush_reset_witness:
  "is_boundary (Done ''end_turn'') \<and>
   onEvent test_reply_env initial_state (Done ''end_turn'') =
     initial_state\<lparr> actions := [ChunkerDrain True, PipelineFlush True] \<rparr> \<and>
   deliveries (actions (onEvent test_reply_env initial_state (Status ''working'' None None None))) =
     [(''System: working'', None)] \<and>
   deliveries (actions (runEvents test_reply_env initial_state
      [Status ''working'' None None None, Done ''end_turn'', Status ''working'' None None None])) =
     [(''System: working'', None), (''System: working'', None)] \<and>
   deliveries (actions (runEvents test_reply_env initial_state
      [Status ''working'' None None None, Status ''working'' None None None])) =
     [(''System: working'', None)]"
proof -
  have b: "is_boundary (Done ''end_turn'')" by (simp add: is_boundary_def)
  note T = turn_boundary_flush_reset[OF b, of test_reply_env initial_state "''working''" None None None]
  have tr: "trim ''working'' = ''working''" by (simp add: trim_def is_ws_def)
  have acc: "statusAccepted test_reply_env ''working'' None None None initial_state"
    by (simp add: statusAccepted_def statusDelivers_def isTagVisible_def test_settings
        initial_simps tr truncateText_def)
  have d: "deliveries (actions (onEvent test_reply_env initial_state (Status ''working'' None None None))) =
     deliveries (actions initial_state) @ [(''System: working'', None)]"
    using acc by (simp add: onStatus_deliveries statusDelivery_def test_settings tr
        truncateText_def statusMeta_def)
  have r: "onEvent test_reply_env initial_state (Done ''end_turn'') =
     initial_state\<lparr> actions := [ChunkerDrain True, PipelineFlush True] \<rparr>"
    using T by (simp add: initial_state_def)
  show ?thesis using b r d T by (simp add: initial_simps)
qed

subsection \<open>Tool-call lifecycle\<close>

lemma deliverToolSummary_eq:
  "deliverToolSummary env ts meta hash False s =
     (if emittedMetaEvents s \<ge> maxMetaEventsPerTurn (settings env) then s
      else s\<lparr> emittedMetaEvents := emittedMetaEvents s + 1,
              actions := actions s @ liveFlush env @ [DeliverTool ts (Some meta)],
              lastToolHash := Some hash \<rparr>)"
  by (simp add: deliverToolSummary_def consumeMetaQuota_def flushReply_forced perform_def
      liveFlush_def)

lemma deliverToolSummary_facts:
  "toolLifecycleById (deliverToolSummary env ts meta hash False s) = toolLifecycleById s"
  "deliveries (actions (deliverToolSummary env ts meta hash False s)) = deliveries (actions s) \<or>
   deliveries (actions (deliverToolSummary env ts meta hash False s)) =
     deliveries (actions s) @ [(ts, Some meta)]"
  by (simp_all add: deliverToolSummary_eq deliveries_append)

lemma count_simps:
  "deliveries (actions s') = deliveries (actions s) \<Longrightarrow> countTerminal x s' = countTerminal x s"
  "deliveries (actions s') = deliveries (actions s) \<Longrightarrow> countStart x s' = countStart x s"
  "deliveries (actions s') = deliveries (actions s) @ [d] \<Longrightarrow>
     countTerminal x s' = countTerminal x s + (if isTerminalDelivery x d then 1 else 0)"
  "deliveries (actions s') = deliveries (actions s) @ [d] \<Longrightarrow>
     countStart x s' = countStart x s + (if isStartDelivery x d then 1 else 0)"
  by (simp_all add: countTerminal_def countStart_def)

text \<open>The outcome of a tool-call event in minimal mode, case by case.\<close>

lemma emitToolSummary_minimal:
  fixes env tx tag id0 st0 title s
  defines "s' \<equiv> emitToolSummary env tx tag id0 st0 title False s"
  defines "status \<equiv> normalizeToolStatus st0"
  assumes "metaMode (settings env) = minimal"
  shows "s' = s \<or>
    (trimmedNonEmpty id0 = None \<and> toolLifecycleById s' = toolLifecycleById s \<and>
       (deliveries (actions s') = deliveries (actions s) \<or>
        (\<exists>ts. deliveries (actions s') = deliveries (actions s) @ [(ts, Some (toolMeta tag None status))]))) \<or>
    (\<exists>x. trimmedNonEmpty id0 = Some x \<and>
       \<not> (evTerminal st0 \<and> lcTerminal s x) \<and> \<not> (evStart st0 tag \<and> lcStarted s x) \<and>
       lcLastHash s x \<noteq> Some (toolHash env tx st0 title) \<and>
       toolLifecycleById s' = (toolLifecycleById s)(x \<mapsto>
          \<lparr> started = lcStarted s x \<or> evStart st0 tag, terminal = lcTerminal s x \<or> evTerminal st0,
            lastRenderedHash = Some (toolHash env tx st0 title) \<rparr>) \<and>
       (deliveries (actions s') = deliveries (actions s) \<or>
        (\<exists>ts. deliveries (actions s') = deliveries (actions s) @ [(ts, Some (toolMeta tag (Some x) status))])))"
  using assms(3)
  unfolding s'_def status_def
  by (auto simp: emitToolSummary_def Let_def lcTerminal_def lcStarted_def lcLastHash_def
      toolHash_def evTerminal_def evStart_def deliverToolSummary_eq deliveries_append
      split: option.splits)


lemma untagged_not_counted:
  "untagged d \<Longrightarrow> \<not> isTerminalDelivery x d"
  "untagged d \<Longrightarrow> \<not> isStartDelivery x d"
  by (auto simp: untagged_def isTerminalDelivery_def isStartDelivery_def split: option.splits)

lemma statusMeta_untagged: "untagged (t, statusMeta tag)"
  by (simp add: untagged_def statusMeta_def split: option.splits)

lemma onStatus_lifecycle:
  "toolLifecycleById (onStatus env tx tag u z s) = toolLifecycleById s"
  by (simp add: onStatus_def emitSystemStatus_eq Let_def)

lemma emitTruncationNotice_general:
  "toolLifecycleById (emitTruncationNotice env s) = toolLifecycleById s"
  "deliveries (actions (emitTruncationNotice env s)) = deliveries (actions s) \<or>
   (\<exists>t. deliveries (actions (emitTruncationNotice env s)) =
      deliveries (actions s) @ [(t, Some truncationMeta)])"
  by (simp_all add: emitTruncationNotice_def emitSystemStatus_eq deliveries_append)

lemma onTextDelta_general:
  "toolLifecycleById (onTextDelta env tx strm tag s) = toolLifecycleById s"
  "deliveries (actions (onTextDelta env tx strm tag s)) = deliveries (actions s) \<or>
   (\<exists>t. deliveries (actions (onTextDelta env tx strm tag s)) =
      deliveries (actions s) @ [(t, Some truncationMeta)])"
proof -
  show "toolLifecycleById (onTextDelta env tx strm tag s) = toolLifecycleById s"
    by (simp add: onTextDelta_def Let_def emitTruncationNotice_general drainChunker_def perform_def)
  have d: "deliveries (actions (drainChunker env False
              ((perform (ChunkerAppend a) s)\<lparr> emittedTurnChars := n \<rparr>))) = deliveries (actions s)"
    for a n
    by (simp add: drainChunker_def perform_def deliveries_append)
  show "deliveries (actions (onTextDelta env tx strm tag s)) = deliveries (actions s) \<or>
   (\<exists>t. deliveries (actions (onTextDelta env tx strm tag s)) =
      deliveries (actions s) @ [(t, Some truncationMeta)])"
    using emitTruncationNotice_general(2)[of env s]
      emitTruncationNotice_general(2)[of env "drainChunker env False
              ((perform (ChunkerAppend (take (maxTurnChars (settings env) - emittedTurnChars s) tx)) s)
                 \<lparr> emittedTurnChars := emittedTurnChars s +
                      length (take (maxTurnChars (settings env) - emittedTurnChars s) tx) \<rparr>)"]
    by (auto simp: onTextDelta_def Let_def d)
qed

lemma truncationMeta_untagged: "untagged (t, Some truncationMeta)"
  by (simp add: untagged_def truncationMeta_def)

text \<open>One step of the pipeline that is not a turn boundary, in minimal mode: either the
  lifecycle map is untouched and at most one delivery without a tool-call id is added,
  or the event is a tool call with an id that passed the three guards.\<close>

lemma step_cases:
  assumes "metaMode (settings env) = minimal" "\<not> is_boundary ev"
  shows
    "(toolLifecycleById (onEvent env s ev) = toolLifecycleById s \<and>
        (deliveries (actions (onEvent env s ev)) = deliveries (actions s) \<or>
         (\<exists>d. deliveries (actions (onEvent env s ev)) = deliveries (actions s) @ [d] \<and> untagged d))) \<or>
     (\<exists>x tx tag id0 st0 title. ev = ToolCall tx tag id0 st0 title \<and> trimmedNonEmpty id0 = Some x \<and>
        \<not> (evTerminal st0 \<and> lcTerminal s x) \<and> \<not> (evStart st0 tag \<and> lcStarted s x) \<and>
        lcLastHash s x \<noteq> Some (toolHash env tx st0 title) \<and>
        toolLifecycleById (onEvent env s ev) = (toolLifecycleById s)(x \<mapsto>
          \<lparr> started = lcStarted s x \<or> evStart st0 tag, terminal = lcTerminal s x \<or> evTerminal st0,
            lastRenderedHash = Some (toolHash env tx st0 title) \<rparr>) \<and>
        (deliveries (actions (onEvent env s ev)) = deliveries (actions s) \<or>
         (\<exists>ts. deliveries (actions (onEvent env s ev)) =
            deliveries (actions s) @ [(ts, Some (toolMeta tag (Some x) (normalizeToolStatus st0)))])))"
proof (cases ev)
  case (TextDelta tx strm tag)
  then show ?thesis
    using onTextDelta_general[of env tx strm tag s] truncationMeta_untagged by auto
next
  case (Status tx tag u z)
  then show ?thesis
    using statusMeta_untagged
    by (auto simp: onStatus_lifecycle onStatus_deliveries statusDelivery_def)
next
  case (ToolCall tx tag id0 st0 title)
  have u: "untagged (ts, Some (toolMeta tag None st))" for ts st
    by (simp add: untagged_def toolMeta_def)
  show ?thesis
    using emitToolSummary_minimal[OF assms(1), where tx=tx and tag=tag and ?id0.0=id0 and ?st0.0=st0
        and title=title and s=s] u
    unfolding ToolCall by auto
next
  case (Done r)
  then show ?thesis using assms(2) by (simp add: is_boundary_def)
next
  case (Error m c)
  then show ?thesis using assms(2) by (simp add: is_boundary_def)
qed


lemma toolMeta_counted:
  "isTerminalDelivery x (ts, Some (toolMeta tag (Some y) (normalizeToolStatus st0))) =
     (y = x \<and> evTerminal st0)"
  "isStartDelivery x (ts, Some (toolMeta tag (Some y) (normalizeToolStatus st0))) =
     (y = x \<and> evStart st0 tag)"
  by (auto simp: isTerminalDelivery_def isStartDelivery_def toolMeta_def evTerminal_def evStart_def
      split: option.splits)

lemma lc_same:
  "toolLifecycleById s' = toolLifecycleById s \<Longrightarrow> lcTerminal s' x = lcTerminal s x"
  "toolLifecycleById s' = toolLifecycleById s \<Longrightarrow> lcStarted s' x = lcStarted s x"
  by (simp_all add: lcTerminal_def lcStarted_def)

lemma lc_upd:
  "toolLifecycleById s' = (toolLifecycleById s)(y \<mapsto> lc) \<Longrightarrow>
     lcTerminal s' x = (if x = y then terminal lc else lcTerminal s x)"
  "toolLifecycleById s' = (toolLifecycleById s)(y \<mapsto> lc) \<Longrightarrow>
     lcStarted s' x = (if x = y then started lc else lcStarted s x)"
  by (simp_all add: lcTerminal_def lcStarted_def)

lemma step_potential:
  assumes "metaMode (settings env) = minimal" "\<not> is_boundary ev"
  shows "countTerminal x (onEvent env s ev) + (if lcTerminal (onEvent env s ev) x then 0 else 1)
           \<le> countTerminal x s + (if lcTerminal s x then 0 else 1)"
    and "countStart x (onEvent env s ev) + (if lcStarted (onEvent env s ev) x then 0 else 1)
           \<le> countStart x s + (if lcStarted s x then 0 else 1)"
    and "lcTerminal s x \<Longrightarrow> lcTerminal (onEvent env s ev) x"
    and "lcStarted s x \<Longrightarrow> lcStarted (onEvent env s ev) x"
proof -
  let ?s' = "onEvent env s ev"
  have "(countTerminal x ?s' + (if lcTerminal ?s' x then 0 else 1)
           \<le> countTerminal x s + (if lcTerminal s x then 0 else 1)) \<and>
        (countStart x ?s' + (if lcStarted ?s' x then 0 else 1)
           \<le> countStart x s + (if lcStarted s x then 0 else 1)) \<and>
        (lcTerminal s x \<longrightarrow> lcTerminal ?s' x) \<and> (lcStarted s x \<longrightarrow> lcStarted ?s' x)"
    using step_cases[OF assms, of s]
  proof (elim disjE conjE exE)
    assume l: "toolLifecycleById ?s' = toolLifecycleById s"
      and d: "deliveries (actions ?s') = deliveries (actions s)"
    show ?thesis
      unfolding lc_same[OF l] count_simps(1)[OF d] count_simps(2)[OF d] by simp
  next
    fix d
    assume l: "toolLifecycleById ?s' = toolLifecycleById s"
      and d: "deliveries (actions ?s') = deliveries (actions s) @ [d]" and u: "untagged d"
    show ?thesis
      unfolding lc_same[OF l] count_simps(3)[OF d] count_simps(4)[OF d]
      using untagged_not_counted[OF u] by simp
  next
    fix y tx tag id0 st0 title
    assume g: "\<not> (evTerminal st0 \<and> lcTerminal s y)" "\<not> (evStart st0 tag \<and> lcStarted s y)"
      and lc: "toolLifecycleById ?s' = (toolLifecycleById s)(y \<mapsto>
          \<lparr> started = lcStarted s y \<or> evStart st0 tag, terminal = lcTerminal s y \<or> evTerminal st0,
            lastRenderedHash = Some (toolHash env tx st0 title) \<rparr>)"
      and d: "deliveries (actions ?s') = deliveries (actions s)"
    have T: "lcTerminal ?s' x = (if x = y then lcTerminal s y \<or> evTerminal st0 else lcTerminal s x)"
      and S: "lcStarted ?s' x = (if x = y then lcStarted s y \<or> evStart st0 tag else lcStarted s x)"
      using lc_upd[OF lc, of x] by simp_all
    have cT: "countTerminal x ?s' = countTerminal x s" and cS: "countStart x ?s' = countStart x s"
      using count_simps(1,2)[OF d] by simp_all
    show ?thesis unfolding T S cT cS using g by (cases "x = y") simp_all
  next
    fix y tx tag id0 st0 title ts
    assume g: "\<not> (evTerminal st0 \<and> lcTerminal s y)" "\<not> (evStart st0 tag \<and> lcStarted s y)"
      and lc: "toolLifecycleById ?s' = (toolLifecycleById s)(y \<mapsto>
          \<lparr> started = lcStarted s y \<or> evStart st0 tag, terminal = lcTerminal s y \<or> evTerminal st0,
            lastRenderedHash = Some (toolHash env tx st0 title) \<rparr>)"
      and d: "deliveries (actions ?s') =
            deliveries (actions s) @ [(ts, Some (toolMeta tag (Some y) (normalizeToolStatus st0)))]"
    have T: "lcTerminal ?s' x = (if x = y then lcTerminal s y \<or> evTerminal st0 else lcTerminal s x)"
      and S: "lcStarted ?s' x = (if x = y then lcStarted s y \<or> evStart st0 tag else lcStarted s x)"
      using lc_upd[OF lc, of x] by simp_all
    have cT: "countTerminal x ?s' = countTerminal x s + (if y = x \<and> evTerminal st0 then 1 else 0)"
      and cS: "countStart x ?s' = countStart x s + (if y = x \<and> evStart st0 tag then 1 else 0)"
      using count_simps(3,4)[OF d] by (simp_all add: toolMeta_counted)
    show ?thesis unfolding T S cT cS using g by (cases "x = y") auto
  qed
  then show "countTerminal x ?s' + (if lcTerminal ?s' x then 0 else 1)
           \<le> countTerminal x s + (if lcTerminal s x then 0 else 1)"
    and "countStart x ?s' + (if lcStarted ?s' x then 0 else 1)
           \<le> countStart x s + (if lcStarted s x then 0 else 1)"
    and "lcTerminal s x \<Longrightarrow> lcTerminal ?s' x"
    and "lcStarted s x \<Longrightarrow> lcStarted ?s' x"
    by blast+
qed

lemma run_potential:
  assumes "metaMode (settings env) = minimal" "\<forall>e \<in> set es. \<not> is_boundary e"
  shows "countTerminal x (runEvents env s es) + (if lcTerminal (runEvents env s es) x then 0 else 1)
           \<le> countTerminal x s + (if lcTerminal s x then 0 else 1) \<and>
         countStart x (runEvents env s es) + (if lcStarted (runEvents env s es) x then 0 else 1)
           \<le> countStart x s + (if lcStarted s x then 0 else 1) \<and>
         (lcTerminal s x \<longrightarrow> lcTerminal (runEvents env s es) x) \<and>
         (lcStarted s x \<longrightarrow> lcStarted (runEvents env s es) x)"
  using assms(2)
proof (induction es arbitrary: s)
  case Nil
  then show ?case by (simp add: runEvents_def)
next
  case (Cons ev es)
  have nb: "\<not> is_boundary ev" and rest: "\<forall>e \<in> set es. \<not> is_boundary e"
    using Cons.prems by simp_all
  have run: "runEvents env s (ev # es) = runEvents env (onEvent env s ev) es"
    by (simp add: runEvents_def)
  note P = step_potential[OF assms(1) nb, where x=x and s=s]
  note IH = Cons.IH[OF rest, where s="onEvent env s ev"]
  show ?case unfolding run using P IH by (auto split: if_splits)
qed

lemma same_text_suppressed:
  assumes "metaMode (settings env) = minimal" "trimmedNonEmpty id0 = Some x"
    and "lcLastHash s x = Some (toolHash env tx st0 title)"
  shows "onEvent env s (ToolCall tx tag id0 st0 title) = s"
  using assms
  by (auto simp: emitToolSummary_def Let_def lcLastHash_def toolHash_def split: option.splits)

lemma emitToolSummary_delivers:
  assumes "metaMode (settings env) = minimal" "shouldSendToolSummaries env"
    and "isTagVisible (settings env) tag" "trimmedNonEmpty id0 = Some x"
    and "\<not> (evTerminal st0 \<and> lcTerminal s x)" "\<not> (evStart st0 tag \<and> lcStarted s x)"
    and "lcLastHash s x \<noteq> Some (toolHash env tx st0 title)"
    and "emittedMetaEvents s < maxMetaEventsPerTurn (settings env)"
  shows "deliveries (actions (onEvent env s (ToolCall tx tag id0 st0 title))) =
           deliveries (actions s) @
             [(truncateText (renderToolSummaryText env tx st0 title) (maxToolSummaryChars (settings env)),
               Some (toolMeta tag (Some x) (normalizeToolStatus st0)))]"
    and "toolLifecycleById (onEvent env s (ToolCall tx tag id0 st0 title)) =
           (toolLifecycleById s)(x \<mapsto>
              \<lparr> started = lcStarted s x \<or> evStart st0 tag, terminal = lcTerminal s x \<or> evTerminal st0,
                lastRenderedHash = Some (toolHash env tx st0 title) \<rparr>)"
    and "emittedMetaEvents (onEvent env s (ToolCall tx tag id0 st0 title)) = emittedMetaEvents s + 1"
  using assms
  by (auto simp: emitToolSummary_def Let_def lcTerminal_def lcStarted_def lcLastHash_def
      toolHash_def evTerminal_def evStart_def deliverToolSummary_eq deliveries_append
      split: option.splits)

text \<open>
  Claim C3, as far as the guards of \<open>emitToolSummary\<close> reach. In minimal meta mode,
  over any events of one turn (no \<open>done\<close> or \<open>error\<close> among them) and for every
  tool-call id: a terminal status of that id is delivered at most once, and not at all
  once the id's lifecycle is terminal; a start (status \<open>in_progress\<close> or tag
  \<open>tool_call\<close>) is delivered at most once, and not at all once it has started; the
  terminal and started flags, once set, stay set; and an event whose rendered summary
  equals the id's last rendered one changes nothing. An update that is neither a start
  nor terminal and whose rendered summary differs from the last one is delivered
  whenever \<open>shouldSendToolSummaries\<close> is set, the tag is visible and the meta quota is
  not used up, also after the id has become terminal, so the deliveries that follow a
  terminal one are not limited to one. With \<open>shouldSendToolSummaries\<close> unset, or the
  tag hidden, a tool-call event changes nothing.
\<close>

theorem tool_lifecycle_guards:
  assumes "metaMode (settings env) = minimal" and "\<forall>e \<in> set es. \<not> is_boundary e"
  shows "countTerminal x (runEvents env s es) \<le> countTerminal x s + (if lcTerminal s x then 0 else 1) \<and>
         countStart x (runEvents env s es) \<le> countStart x s + (if lcStarted s x then 0 else 1) \<and>
         (lcTerminal s x \<longrightarrow> lcTerminal (runEvents env s es) x) \<and>
         (lcStarted s x \<longrightarrow> lcStarted (runEvents env s es) x) \<and>
         (\<forall>tx tag id0 st0 title.
            trimmedNonEmpty id0 = Some x \<and> lcLastHash s x = Some (toolHash env tx st0 title) \<longrightarrow>
            onEvent env s (ToolCall tx tag id0 st0 title) = s) \<and>
         (\<forall>tx tag id0 st0 title.
            trimmedNonEmpty id0 = Some x \<and> shouldSendToolSummaries env \<and>
            isTagVisible (settings env) tag \<and> \<not> evTerminal st0 \<and> \<not> evStart st0 tag \<and>
            lcLastHash s x \<noteq> Some (toolHash env tx st0 title) \<and>
            emittedMetaEvents s < maxMetaEventsPerTurn (settings env) \<longrightarrow>
            deliveries (actions (onEvent env s (ToolCall tx tag id0 st0 title))) =
              deliveries (actions s) @
                [(truncateText (renderToolSummaryText env tx st0 title)
                    (maxToolSummaryChars (settings env)),
                  Some (toolMeta tag (Some x) (normalizeToolStatus st0)))]) \<and>
         (\<forall>tx tag id0 st0 title.
            \<not> shouldSendToolSummaries env \<or> \<not> isTagVisible (settings env) tag \<longrightarrow>
            onEvent env s (ToolCall tx tag id0 st0 title) = s)"
proof -
  note R = run_potential[OF assms, where x=x and s=s]
  have a: "countTerminal x (runEvents env s es) \<le> countTerminal x s + (if lcTerminal s x then 0 else 1)"
    and b: "countStart x (runEvents env s es) \<le> countStart x s + (if lcStarted s x then 0 else 1)"
    using R by (auto split: if_splits)
  have c: "lcTerminal s x \<longrightarrow> lcTerminal (runEvents env s es) x"
    and d: "lcStarted s x \<longrightarrow> lcStarted (runEvents env s es) x"
    using R by blast+
  have e: "onEvent env s (ToolCall tx tag id0 st0 title) = s"
    if "trimmedNonEmpty id0 = Some x" "lcLastHash s x = Some (toolHash env tx st0 title)"
    for tx tag id0 st0 title
    using same_text_suppressed[OF assms(1) that] .
  have f: "deliveries (actions (onEvent env s (ToolCall tx tag id0 st0 title))) =
              deliveries (actions s) @
                [(truncateText (renderToolSummaryText env tx st0 title)
                    (maxToolSummaryChars (settings env)),
                  Some (toolMeta tag (Some x) (normalizeToolStatus st0)))]"
    if "trimmedNonEmpty id0 = Some x" "shouldSendToolSummaries env"
      "isTagVisible (settings env) tag" "\<not> evTerminal st0" "\<not> evStart st0 tag"
      "lcLastHash s x \<noteq> Some (toolHash env tx st0 title)"
      "emittedMetaEvents s < maxMetaEventsPerTurn (settings env)"
    for tx tag id0 st0 title
    using emitToolSummary_delivers(1)[OF assms(1) that(2,3,1) _ _ that(6,7)] that(4,5) by simp
  have g: "onEvent env s (ToolCall tx tag id0 st0 title) = s"
    if "\<not> shouldSendToolSummaries env \<or> \<not> isTagVisible (settings env) tag"
    for tx tag id0 st0 title
    using that by (auto simp: emitToolSummary_def)
  show ?thesis using a b c d e f g by blast
qed

lemma lower_completed: "toLowerCase ''completed'' = ''completed''"
  by (simp add: toLowerCase_def lower_char_def)

lemma trims:
  "trim ''completed'' = ''completed''" "trim ''exec'' = ''exec''" "trim ''call-1'' = ''call-1''"
  "trim ''exec: line 1'' = ''exec: line 1''" "trim ''exec: line 2'' = ''exec: line 2''"
  "trim ''exec (completed)'' = ''exec (completed)''"
  by (simp_all add: trim_def is_ws_def)

lemma render_values:
  "renderToolSummaryText test_reply_env ''exec (completed)'' (Some ''completed'') (Some ''exec'') =
     summary_completed"
  "renderToolSummaryText test_reply_env ''exec: line 1'' None (Some ''exec: line 1'') =
     ''Tool Call: exec: line 1''"
  "renderToolSummaryText test_reply_env ''exec: line 2'' None (Some ''exec: line 2'') =
     ''Tool Call: exec: line 2''"
  by (simp_all add: renderToolSummaryText_def trimmedNonEmpty_def trims test_settings
      summary_completed_def)

lemma hash_values:
  "toolHash test_reply_env ''exec (completed)'' (Some ''completed'') (Some ''exec'') = summary_completed"
  "toolHash test_reply_env ''exec: line 1'' None (Some ''exec: line 1'') = ''Tool Call: exec: line 1''"
  "toolHash test_reply_env ''exec: line 2'' None (Some ''exec: line 2'') = ''Tool Call: exec: line 2''"
  by (simp_all add: toolHash_def render_values test_settings truncateText_def hashText_def)
     (simp_all add: summary_completed_def trim_def is_ws_def)


lemma test_visible: "isTagVisible (settings test_reply_env) (Some ''tool_call_update'')"
  by (simp add: isTagVisible_def test_settings ACP_TAG_VISIBILITY_DEFAULTS_def)

lemma test_flags:
  "evTerminal (Some ''completed'')" "\<not> evStart (Some ''completed'') (Some ''tool_call_update'')"
  "\<not> evTerminal None" "\<not> evStart None (Some ''tool_call_update'')"
  "trimmedNonEmpty (Some ''call-1'') = Some ''call-1''"
  "normalizeToolStatus (Some ''completed'') = Some ''completed''"
  "normalizeToolStatus None = None"
  by (simp_all add: evTerminal_def evStart_def normalizeToolStatus_def trims lower_completed
      TERMINAL_TOOL_STATUSES_def trimmedNonEmpty_def)

lemma test_minimal: "metaMode (settings test_reply_env) = minimal"
  "maxMetaEventsPerTurn (settings test_reply_env) = 64"
  "maxToolSummaryChars (settings test_reply_env) = 320"
  by (simp_all add: test_settings)

lemma summary_neq:
  "summary_completed \<noteq> ''Tool Call: exec: line 1''"
  "''Tool Call: exec: line 1'' \<noteq> ''Tool Call: exec: line 2''"
  by (simp_all add: summary_completed_def)

lemma truncate_values:
  "truncateText summary_completed 320 = summary_completed"
  "truncateText ''Tool Call: exec: line 1'' 320 = ''Tool Call: exec: line 1''"
  "truncateText ''Tool Call: exec: line 2'' 320 = ''Tool Call: exec: line 2''"
  by (simp_all add: truncateText_def summary_completed_def)

lemma meta_values:
  "toolMeta (Some ''tool_call_update'') (Some ''call-1'') (Some ''completed'') = meta_completed"
  "toolMeta (Some ''tool_call_update'') (Some ''call-1'') None = meta_update"
  by (simp_all add: toolMeta_def meta_completed_def meta_update_def)

lemma completed_run:
  defines "s1 \<equiv> onEvent test_reply_env initial_state tool_completed"
  defines "s2 \<equiv> onEvent test_reply_env s1 tool_output1"
  defines "s3 \<equiv> onEvent test_reply_env s2 tool_output2"
  shows "deliveries (actions s1) = [(summary_completed, Some meta_completed)]"
    and "lcTerminal s1 ''call-1''" and "\<not> lcStarted s1 ''call-1''"
    and "deliveries (actions s2) =
          [(summary_completed, Some meta_completed), (''Tool Call: exec: line 1'', Some meta_update)]"
    and "deliveries (actions s3) =
          [(summary_completed, Some meta_completed), (''Tool Call: exec: line 1'', Some meta_update),
           (''Tool Call: exec: line 2'', Some meta_update)]"
    and "lcTerminal s3 ''call-1''"
proof -
  have g0: "\<not> (evTerminal (Some ''completed'') \<and> lcTerminal initial_state ''call-1'')"
    "\<not> (evStart (Some ''completed'') (Some ''tool_call_update'') \<and> lcStarted initial_state ''call-1'')"
    "lcLastHash initial_state ''call-1'' \<noteq>
       Some (toolHash test_reply_env ''exec (completed)'' (Some ''completed'') (Some ''exec''))"
    "emittedMetaEvents initial_state < maxMetaEventsPerTurn (settings test_reply_env)"
    by (simp_all add: lcTerminal_def lcStarted_def lcLastHash_def initial_simps test_minimal test_flags)
  note D1 = emitToolSummary_delivers[OF test_minimal(1) test_settings(3) test_visible test_flags(5) g0]
  have d1: "deliveries (actions s1) = [(summary_completed, Some meta_completed)]"
    unfolding s1_def tool_completed_def using D1(1)
    by (simp add: initial_simps render_values test_minimal truncate_values test_flags meta_values)
  have l1: "toolLifecycleById s1 = [''call-1'' \<mapsto>
      \<lparr> started = False, terminal = True, lastRenderedHash = Some summary_completed \<rparr>]"
    unfolding s1_def tool_completed_def using D1(2)
    by (simp add: initial_simps hash_values test_flags lcTerminal_def lcStarted_def)
  have e1: "emittedMetaEvents s1 = 1"
    unfolding s1_def tool_completed_def using D1(3) by (simp add: initial_simps)
  have t1: "lcTerminal s1 ''call-1''" "\<not> lcStarted s1 ''call-1''"
    "lcLastHash s1 ''call-1'' = Some summary_completed"
    by (simp_all add: lcTerminal_def lcStarted_def lcLastHash_def l1)
  have g1: "\<not> (evTerminal None \<and> lcTerminal s1 ''call-1'')"
    "\<not> (evStart None (Some ''tool_call_update'') \<and> lcStarted s1 ''call-1'')"
    "lcLastHash s1 ''call-1'' \<noteq>
       Some (toolHash test_reply_env ''exec: line 1'' None (Some ''exec: line 1''))"
    "emittedMetaEvents s1 < maxMetaEventsPerTurn (settings test_reply_env)"
    by (simp_all add: t1 e1 test_minimal test_flags hash_values summary_neq)
  note D2 = emitToolSummary_delivers[OF test_minimal(1) test_settings(3) test_visible test_flags(5) g1]
  have d2: "deliveries (actions s2) =
          [(summary_completed, Some meta_completed), (''Tool Call: exec: line 1'', Some meta_update)]"
    unfolding s2_def tool_output1_def using D2(1)
    by (simp add: d1 render_values test_minimal truncate_values test_flags meta_values)
  have l2: "toolLifecycleById s2 = (toolLifecycleById s1)(''call-1'' \<mapsto>
      \<lparr> started = False, terminal = True, lastRenderedHash = Some ''Tool Call: exec: line 1'' \<rparr>)"
    unfolding s2_def tool_output1_def using D2(2)
    by (simp add: hash_values test_flags t1)
  have e2: "emittedMetaEvents s2 = 2"
    unfolding s2_def tool_output1_def using D2(3) by (simp add: e1)
  have t2: "lcTerminal s2 ''call-1''" "\<not> lcStarted s2 ''call-1''"
    "lcLastHash s2 ''call-1'' = Some ''Tool Call: exec: line 1''"
    by (simp_all add: lcTerminal_def lcStarted_def lcLastHash_def l2)
  have g2: "\<not> (evTerminal None \<and> lcTerminal s2 ''call-1'')"
    "\<not> (evStart None (Some ''tool_call_update'') \<and> lcStarted s2 ''call-1'')"
    "lcLastHash s2 ''call-1'' \<noteq>
       Some (toolHash test_reply_env ''exec: line 2'' None (Some ''exec: line 2''))"
    "emittedMetaEvents s2 < maxMetaEventsPerTurn (settings test_reply_env)"
    by (simp_all add: t2 e2 test_minimal test_flags hash_values summary_neq)
  note D3 = emitToolSummary_delivers[OF test_minimal(1) test_settings(3) test_visible test_flags(5) g2]
  have d3: "deliveries (actions s3) =
          [(summary_completed, Some meta_completed), (''Tool Call: exec: line 1'', Some meta_update),
           (''Tool Call: exec: line 2'', Some meta_update)]"
    unfolding s3_def tool_output2_def using D3(1)
    by (simp add: d2 render_values test_minimal truncate_values test_flags meta_values)
  have l3: "lcTerminal s3 ''call-1''"
    unfolding s3_def tool_output2_def using D3(2) t2
    by (simp add: lcTerminal_def)
  show "deliveries (actions s1) = [(summary_completed, Some meta_completed)]"
    and "lcTerminal s1 ''call-1''" and "\<not> lcStarted s1 ''call-1''"
    and "deliveries (actions s2) =
          [(summary_completed, Some meta_completed), (''Tool Call: exec: line 1'', Some meta_update)]"
    and "deliveries (actions s3) =
          [(summary_completed, Some meta_completed), (''Tool Call: exec: line 1'', Some meta_update),
           (''Tool Call: exec: line 2'', Some meta_update)]"
    and "lcTerminal s3 ''call-1''"
    using d1 t1 d2 d3 l3 by simp_all
qed

text \<open>
  After the completed update of \<open>call-1\<close> has been delivered, two further updates of
  \<open>call-1\<close> with different titles are both delivered: three deliveries for the id.
\<close>

theorem tool_updates_after_terminal_counterexample:
  "deliveries (actions (onEvent test_reply_env initial_state tool_completed)) =
     [(summary_completed, Some meta_completed)] \<and>
   lcTerminal (onEvent test_reply_env initial_state tool_completed) ''call-1'' \<and>
   deliveries (actions (runEvents test_reply_env initial_state
       [tool_completed, tool_output1, tool_output2])) =
     [(summary_completed, Some meta_completed), (''Tool Call: exec: line 1'', Some meta_update),
      (''Tool Call: exec: line 2'', Some meta_update)] \<and>
   countFor ''call-1'' (runEvents test_reply_env initial_state
       [tool_completed, tool_output1, tool_output2]) = 3"
proof -
  have run: "runEvents test_reply_env initial_state [tool_completed, tool_output1, tool_output2] =
      onEvent test_reply_env (onEvent test_reply_env
        (onEvent test_reply_env initial_state tool_completed) tool_output1) tool_output2"
    by (simp add: runEvents_def)
  have c: "countFor ''call-1'' (runEvents test_reply_env initial_state
       [tool_completed, tool_output1, tool_output2]) = 3"
    unfolding run countFor_def completed_run(5)
    by (simp add: isDeliveryFor_def meta_completed_def meta_update_def)
  show ?thesis using completed_run(1,2,5) c unfolding run by simp
qed

theorem tool_lifecycle_guards_witness:
  "metaMode (settings test_reply_env) = minimal \<and>
   \<not> is_boundary tool_completed \<and> \<not> is_boundary tool_output1 \<and>
   lcTerminal (onEvent test_reply_env initial_state tool_completed) ''call-1'' \<and>
   countTerminal ''call-1'' (onEvent test_reply_env initial_state tool_completed) = 1 \<and>
   countTerminal ''call-1''
     (runEvents test_reply_env (onEvent test_reply_env initial_state tool_completed)
        [tool_completed, tool_output1, tool_completed]) \<le> 1 \<and>
   lcTerminal
     (runEvents test_reply_env (onEvent test_reply_env initial_state tool_completed)
        [tool_completed, tool_output1, tool_completed]) ''call-1'' \<and>
   metaMode (settings quiet_reply_env) = minimal \<and>
   \<not> shouldSendToolSummaries quiet_reply_env \<and>
   onEvent quiet_reply_env initial_state tool_completed = initial_state"
proof -
  let ?s1 = "onEvent test_reply_env initial_state tool_completed"
  let ?es = "[tool_completed, tool_output1, tool_completed]"
  have nb: "\<not> is_boundary tool_completed" "\<not> is_boundary tool_output1"
    by (simp_all add: is_boundary_def tool_completed_def tool_output1_def)
  then have all: "\<forall>e \<in> set ?es. \<not> is_boundary e" by simp
  have c1: "countTerminal ''call-1'' ?s1 = 1"
    unfolding countTerminal_def completed_run(1)
    by (simp add: isTerminalDelivery_def meta_completed_def TERMINAL_TOOL_STATUSES_def)
  note T = tool_lifecycle_guards[OF test_minimal(1) all, of "''call-1''" ?s1]
  have le: "countTerminal ''call-1'' (runEvents test_reply_env ?s1 ?es) \<le> 1"
    and lt: "lcTerminal (runEvents test_reply_env ?s1 ?es) ''call-1''"
    using T completed_run(2) c1 by simp_all
  have qm: "metaMode (settings quiet_reply_env) = minimal"
    and qs: "\<not> shouldSendToolSummaries quiet_reply_env"
    by (simp_all add: quiet_reply_env_def test_minimal)
  have "\<forall>tx tag id0 st0 title.
      \<not> shouldSendToolSummaries quiet_reply_env \<or>
      \<not> isTagVisible (settings quiet_reply_env) tag \<longrightarrow>
      onEvent quiet_reply_env initial_state (ToolCall tx tag id0 st0 title) = initial_state"
    using tool_lifecycle_guards[OF qm, of "[]" "''call-1''" initial_state] by simp
  then have q: "onEvent quiet_reply_env initial_state tool_completed = initial_state"
    using qs unfolding tool_completed_def by blast
  show ?thesis using test_minimal(1) nb completed_run(2) c1 le lt qm qs q by simp
qed

end
